theory Spec2Isabelle
  imports Main "HOL-Library.Word" "HOL-Library.Char_ord" "HOL-Library.List_Lexorder"
begin

unbundle bit_operations_syntax

section \<open>Go values used by the geocoder\<close>

text \<open>
  A Go \<^verbatim>\<open>string\<close> is a sequence of bytes; it is modelled as \<^typ>\<open>string\<close> (a list of
  8-bit characters). A \<^verbatim>\<open>[]byte\<close> is a list of 8-bit words. Converting between the two
  (\<^verbatim>\<open>[]byte(s)\<close>) keeps the bytes.
\<close>

type_synonym byte = "8 word"

definition bytes_of :: "string \<Rightarrow> byte list" where
  "bytes_of s = map of_char s"

text \<open>
  Go's \<^verbatim>\<open>error\<close> values: the ones built with \<^verbatim>\<open>errors.New\<close>, the
  \<^verbatim>\<open>base64.CorruptInputError\<close> of the decoder (its byte offset is not modelled), and errors
  handed over by a library or by the injected transport, identified by their text.
\<close>

datatype error = errors_New string | CorruptInputError | LibError string

text \<open>A call either returns its results or panics (a nil dereference in this program).\<close>

datatype 'a outcome = Returns 'a | Panics

text \<open>
  A \<^verbatim>\<open>float64\<close> is a finite dyadic number \<open>(-1)\<^sup>s * m * 2\<^sup>e\<close>, an infinity or NaN.
  Every finite IEEE-754 double is \<open>Finite s m e\<close> for some \<open>m < 2\<^sup>5\<^sup>3\<close>; the model does not
  restrict \<open>m\<close> and \<open>e\<close>, so what is proved for every \<open>Finite s m e\<close> holds for every
  finite double.
\<close>

datatype float64 = Finite bool nat int | Inf bool | NaN

section \<open>types.go\<close>

record Coordinate =
  Lat :: float64
  Lng :: float64

record Geometry =
  Location :: Coordinate
  LocationType :: string

record AddressComponent =
  LongName :: string
  ShortName :: string
  Types :: "string list"

record ResultSet =
  AddressComponents :: "AddressComponent list"
  FormattedAddress :: string
  Geometry :: Geometry
  PlaceID :: string
  ResultTypes :: "string list"

type_synonym GoogleResponseStatus = string

record GoogleResponse =
  Results :: "ResultSet option list"
  Status :: GoogleResponseStatus

record BusinessKey =
  ClientID :: string
  SigningKey :: string
  Channel :: string

definition GRS_ZERO_RESULTS :: GoogleResponseStatus where
  "GRS_ZERO_RESULTS = ''ZERO_RESULTS''"

definition GRS_REQUEST_DENIED :: GoogleResponseStatus where
  "GRS_REQUEST_DENIED = ''REQUEST_DENIED''"

definition GRS_INVALID_REQUEST :: GoogleResponseStatus where
  "GRS_INVALID_REQUEST = ''INVALID_REQUEST''"

definition GRS_UNKNOWN_ERROR :: GoogleResponseStatus where
  "GRS_UNKNOWN_ERROR = ''UNKNOWN_ERROR''"

definition GRS_OVER_QUERY_LIMIT :: GoogleResponseStatus where
  "GRS_OVER_QUERY_LIMIT = ''OVER_QUERY_LIMIT''"

definition GRS_OK :: GoogleResponseStatus where
  "GRS_OK = ''OK''"

section \<open>Library functions called by the signer\<close>

subsection \<open>strings.ReplaceAll\<close>

text \<open>
  \<^verbatim>\<open>strings.ReplaceAll(s, old, new)\<close> for the one-byte \<^verbatim>\<open>old\<close> and \<^verbatim>\<open>new\<close> the source passes:
  every occurrence of the byte is replaced.
\<close>

definition strings_ReplaceAll :: "string \<Rightarrow> char \<Rightarrow> char \<Rightarrow> string" where
  "strings_ReplaceAll s old new = map (\<lambda>c. if c = old then new else c) s"

subsection \<open>encoding/base64, StdEncoding\<close>

text \<open>
  The standard alphabet of RFC 4648 with \<^verbatim>\<open>=\<close> padding. \<open>decodeMap\<close> gives the 6-bit value
  of an alphabet character.
\<close>

definition encodeStd :: string where
  "encodeStd = ''ABCDEFGHIJKLMNOPQRSTUVWXYZabcdefghijklmnopqrstuvwxyz0123456789+/''"

definition decodeMap :: "char \<Rightarrow> nat option" where
  "decodeMap c =
     (let n = (of_char c :: nat) in
      if 65 \<le> n \<and> n \<le> 90 then Some (n - 65)
      else if 97 \<le> n \<and> n \<le> 122 then Some (n - 71)
      else if 48 \<le> n \<and> n \<le> 57 then Some (n + 4)
      else if n = 43 then Some 62
      else if n = 47 then Some 63
      else None)"

definition sextet :: "nat \<Rightarrow> char" where
  "sextet v = encodeStd ! (v mod 64)"

fun EncodeToString :: "byte list \<Rightarrow> string" where
  "EncodeToString (a # b # c # r) =
     (let v = unat a * 65536 + unat b * 256 + unat c in
      sextet (v div 262144) # sextet (v div 4096) # sextet (v div 64) # sextet v
        # EncodeToString r)"
| "EncodeToString [a, b] =
     (let v = unat a * 65536 + unat b * 256 in
      [sextet (v div 262144), sextet (v div 4096), sextet (v div 64), CHR ''='']) "
| "EncodeToString [a] =
     (let v = unat a * 65536 in
      [sextet (v div 262144), sextet (v div 4096), CHR ''='', CHR ''=''])"
| "EncodeToString [] = []"

text \<open>
  The bytes of one quantum: four 6-bit values packed into 24 bits (missing ones are 0).
\<close>

definition quantum :: "nat list \<Rightarrow> byte list" where
  "quantum vs =
     (let v = (vs @ [0, 0, 0, 0]) ! 0 * 262144 + (vs @ [0, 0, 0, 0]) ! 1 * 4096
            + (vs @ [0, 0, 0, 0]) ! 2 * 64 + (vs @ [0, 0, 0, 0]) ! 3
      in [of_nat (v div 65536 mod 256), of_nat (v div 256 mod 256), of_nat (v mod 256)])"

definition is_newline :: "char \<Rightarrow> bool" where
  "is_newline c \<longleftrightarrow> c = CHR 0x0A \<or> c = CHR 0x0D"

text \<open>
  \<^verbatim>\<open>DecodeString\<close> of the padded, non-strict standard encoding. The decoder reads quanta of
  four alphabet characters and skips carriage returns and line feeds. The argument \<open>acc\<close>
  holds the values read so far in the current quantum. Padding is accepted only after two
  or three values, must be complete, and nothing but newlines may follow it; any other
  byte outside the alphabet, and an input that ends inside a quantum, is corrupt.
\<close>

fun decode :: "nat list \<Rightarrow> string \<Rightarrow> error + byte list" where
  "decode acc [] = (if acc = [] then Inr [] else Inl CorruptInputError)"
| "decode acc (c # cs) =
     (case decodeMap c of
        Some v \<Rightarrow>
          (if length acc = 3
           then (case decode [] cs of
                   Inl e \<Rightarrow> Inl e
                 | Inr r \<Rightarrow> Inr (quantum (acc @ [v]) @ r))
           else decode (acc @ [v]) cs)
      | None \<Rightarrow>
          (if is_newline c then decode acc cs
           else if c \<noteq> CHR ''='' then Inl CorruptInputError
           else if length acc < 2 then Inl CorruptInputError
           else if length acc = 2 then
             (case dropWhile is_newline cs of
                [] \<Rightarrow> Inl CorruptInputError
              | d # ds \<Rightarrow>
                  (if d \<noteq> CHR ''='' then Inl CorruptInputError
                   else if dropWhile is_newline ds = [] then Inr (take 1 (quantum acc))
                   else Inl CorruptInputError))
           else if dropWhile is_newline cs = [] then Inr (take 2 (quantum acc))
           else Inl CorruptInputError))"

definition DecodeString :: "string \<Rightarrow> error + byte list" where
  "DecodeString s = decode [] s"

subsection \<open>crypto/sha1\<close>

text \<open>
  SHA-1 as in FIPS 180-4, on 32-bit words: the message is padded with \<open>0x80\<close>, zeros and
  its length in bits (64 bits, big-endian) to a multiple of 64 bytes; each block is
  expanded to 80 words and run through four stages of 20 rounds.
\<close>

definition rotl :: "nat \<Rightarrow> 32 word \<Rightarrow> 32 word" where
  "rotl n x = push_bit n x OR drop_bit (32 - n) x"

fun words_of :: "byte list \<Rightarrow> 32 word list" where
  "words_of (a # b # c # d # r) =
     (push_bit 24 (ucast a) OR push_bit 16 (ucast b) OR push_bit 8 (ucast c) OR ucast d)
       # words_of r"
| "words_of _ = []"

definition be_bytes32 :: "32 word \<Rightarrow> byte list" where
  "be_bytes32 w = map (\<lambda>i. ucast (take_bit 8 (drop_bit (8 * i) w))) [3, 2, 1, 0]"

definition be_bytes64 :: "64 word \<Rightarrow> byte list" where
  "be_bytes64 w = map (\<lambda>i. ucast (take_bit 8 (drop_bit (8 * i) w))) [7, 6, 5, 4, 3, 2, 1, 0]"

definition sha1_pad :: "byte list \<Rightarrow> byte list" where
  "sha1_pad m = m @ [0x80] @ replicate ((119 - length m mod 64) mod 64) 0
                  @ be_bytes64 (of_nat (8 * length m))"

text \<open>
  The message schedule, most recent word first: \<open>W\<^sub>t = rotl 1 (W\<^sub>t\<^sub>-\<^sub>3 XOR W\<^sub>t\<^sub>-\<^sub>8 XOR W\<^sub>t\<^sub>-\<^sub>1\<^sub>4 XOR W\<^sub>t\<^sub>-\<^sub>1\<^sub>6)\<close>.
\<close>

fun expand :: "nat \<Rightarrow> 32 word list \<Rightarrow> 32 word list" where
  "expand 0 ws = ws"
| "expand (Suc n) ws = expand n (rotl 1 (ws ! 2 XOR ws ! 7 XOR ws ! 13 XOR ws ! 15) # ws)"

definition schedule :: "byte list \<Rightarrow> 32 word list" where
  "schedule blk = rev (expand 64 (rev (words_of blk)))"

definition Ch :: "32 word \<Rightarrow> 32 word \<Rightarrow> 32 word \<Rightarrow> 32 word" where
  "Ch b c d = (b AND c) OR (NOT b AND d)"

definition Parity :: "32 word \<Rightarrow> 32 word \<Rightarrow> 32 word \<Rightarrow> 32 word" where
  "Parity b c d = b XOR c XOR d"

definition Maj :: "32 word \<Rightarrow> 32 word \<Rightarrow> 32 word \<Rightarrow> 32 word" where
  "Maj b c d = (b AND c) OR (b AND d) OR (c AND d)"

type_synonym sha1_state = "32 word \<times> 32 word \<times> 32 word \<times> 32 word \<times> 32 word"

fun rounds ::
  "(32 word \<Rightarrow> 32 word \<Rightarrow> 32 word \<Rightarrow> 32 word) \<Rightarrow> 32 word \<Rightarrow> sha1_state \<Rightarrow> 32 word list
     \<Rightarrow> sha1_state" where
  "rounds f k s [] = s"
| "rounds f k (a, b, c, d, e) (w # ws) =
     rounds f k (rotl 5 a + f b c d + e + w + k, a, rotl 30 b, c, d) ws"

definition sha1_block :: "sha1_state \<Rightarrow> byte list \<Rightarrow> sha1_state" where
  "sha1_block h blk =
     (let W = schedule blk;
          s1 = rounds Ch 0x5A827999 h (take 20 W);
          s2 = rounds Parity 0x6ED9EBA1 s1 (take 20 (drop 20 W));
          s3 = rounds Maj 0x8F1BBCDC s2 (take 20 (drop 40 W));
          s4 = rounds Parity 0xCA62C1D6 s3 (drop 60 W)
      in case (h, s4) of
           ((h0, h1, h2, h3, h4), (a, b, c, d, e)) \<Rightarrow>
             (h0 + a, h1 + b, h2 + c, h3 + d, h4 + e))"

definition sha1_init :: sha1_state where
  "sha1_init = (0x67452301, 0xEFCDAB89, 0x98BADCFE, 0x10325476, 0xC3D2E1F0)"

fun blocks :: "nat \<Rightarrow> byte list \<Rightarrow> byte list list" where
  "blocks 0 p = []"
| "blocks (Suc k) p = take 64 p # blocks k (drop 64 p)"

definition sha1_Sum :: "byte list \<Rightarrow> byte list" where
  "sha1_Sum m =
     (let p = sha1_pad m in
      case foldl sha1_block sha1_init (blocks (length p div 64) p) of
        (a, b, c, d, e) \<Rightarrow> concat (map be_bytes32 [a, b, c, d, e]))"

subsection \<open>crypto/hmac\<close>

text \<open>
  HMAC of RFC 2104 over SHA-1 (block size 64): a key longer than a block is hashed first,
  the key is padded with zeros to a block, and the digest is
  \<open>H (key XOR opad || H (key XOR ipad || message))\<close>.
\<close>

definition hmac_key :: "byte list \<Rightarrow> byte list" where
  "hmac_key key =
     (let k = (if length key > 64 then sha1_Sum key else key)
      in k @ replicate (64 - length k) 0)"

definition hmac_sha1 :: "byte list \<Rightarrow> byte list \<Rightarrow> byte list" where
  "hmac_sha1 key msg =
     sha1_Sum (map (\<lambda>b. b XOR 0x5c) (hmac_key key)
               @ sha1_Sum (map (\<lambda>b. b XOR 0x36) (hmac_key key) @ msg))"

section \<open>The client\<close>

text \<open>
  The token bucket of \<^verbatim>\<open>golang.org/x/time/rate\<close>: its refill rate (\<^verbatim>\<open>rate.Limit\<close>, a
  \<^verbatim>\<open>float64\<close>) and its capacity. The tokens and time stamps of the bucket are not modelled;
  what \<^verbatim>\<open>Wait\<close> returns is an input of each call.
\<close>

record Limiter =
  limit :: float64
  burst :: int

text \<open>
  \<^verbatim>\<open>rate.Limit(n)\<close> converts a Go \<^verbatim>\<open>int\<close> to \<^verbatim>\<open>float64\<close>: exactly below \<open>2\<^sup>5\<^sup>3\<close>, rounded to
  53 significant bits (ties to even) above. The subtraction in \<open>rate_Limit\<close> is the one of
  natural numbers: nothing is shifted out of a number of at most 53 bits.
\<close>

fun bit_length :: "nat \<Rightarrow> nat" where
  "bit_length n = (if n = 0 then 0 else Suc (bit_length (n div 2)))"

declare bit_length.simps [simp del]

definition round_half_even :: "nat \<Rightarrow> nat \<Rightarrow> nat" where
  "round_half_even q d =
     (if 2 * (q mod d) > d \<or> (2 * (q mod d) = d \<and> odd (q div d)) then q div d + 1
      else q div d)"

definition rate_Limit :: "int \<Rightarrow> float64" where
  "rate_Limit n =
     (let m = nat \<bar>n\<bar>; k = bit_length m - 53
      in Finite (n < 0) (round_half_even m (2 ^ k)) (int k))"

definition NewLimiter :: "float64 \<Rightarrow> int \<Rightarrow> Limiter" where
  "NewLimiter r b = \<lparr>limit = r, burst = b\<rparr>"

definition SetLimit :: "Limiter \<Rightarrow> float64 \<Rightarrow> Limiter" where
  "SetLimit lim newLimit = lim\<lparr>limit := newLimit\<rparr>"

text \<open>
  The response of the transport, as far as the client reads it: the bytes of its body
  (the body itself is taken to be non-nil, as \<^verbatim>\<open>net/http\<close> promises when the error is nil).
  \<^verbatim>\<open>Get\<close> of the interface \<^verbatim>\<open>HttpRequester\<close> maps the target URL to Go's pair of a response
  pointer and an error, either of which may be nil. An observer is identified by a number.
\<close>

record Response =
  Body :: string

type_synonym HttpRequester = "string \<Rightarrow> Response option \<times> error option"

datatype RequestObserver = Observer nat

type_synonym Duration = int

record Geocoder =
  businessKey :: "BusinessKey option"
  baseURL :: string
  language :: string
  client :: "HttpRequester option"
  rps :: int
  overQuerySleepDuration :: Duration
  observer :: "RequestObserver option"
  limiter :: "Limiter option"

subsection \<open>getSignature\<close>

text \<open>
  \<^verbatim>\<open>g.businessKey\<close> is dereferenced without a check. \<^verbatim>\<open>h.Write\<close> of a hash never returns
  an error, so the source's second error check has no branch here.
\<close>

definition getSignature :: "Geocoder \<Rightarrow> string \<Rightarrow> (error + string) outcome" where
  "getSignature g targetURL =
     (case businessKey g of
        None \<Rightarrow> Panics
      | Some bk \<Rightarrow>
          (let sKey = strings_ReplaceAll (SigningKey bk) (CHR ''-'') (CHR ''+'');
               sKey = strings_ReplaceAll sKey (CHR ''_'') (CHR ''/'')
           in case DecodeString sKey of
                Inl err \<Rightarrow> Returns (Inl err)
              | Inr signingKeyBytes \<Rightarrow>
                  (let hash = EncodeToString (hmac_sha1 signingKeyBytes (bytes_of targetURL));
                       hash = strings_ReplaceAll hash (CHR ''+'') (CHR ''-'');
                       hash = strings_ReplaceAll hash (CHR ''/'') (CHR ''_'')
                   in Returns (Inr hash))))"

subsection \<open>The signer as the specification describes it\<close>

text \<open>
  The reference definition of the specification (section 4.2), written from its words:
  normalise the key from the URL-safe to the standard alphabet, decode it (a failure ends
  the call), take the HMAC of the input with the 160-bit hash, encode the digest with the
  standard alphabet and translate it to the URL-safe one, padding kept.
\<close>

definition to_std_alphabet :: "char \<Rightarrow> char" where
  "to_std_alphabet c = (if c = CHR ''-'' then CHR ''+'' else if c = CHR ''_'' then CHR ''/'' else c)"

definition to_urlsafe_alphabet :: "char \<Rightarrow> char" where
  "to_urlsafe_alphabet c =
     (if c = CHR ''+'' then CHR ''-'' else if c = CHR ''/'' then CHR ''_'' else c)"

definition sign_spec :: "string \<Rightarrow> string \<Rightarrow> error + string" where
  "sign_spec secretKey input =
     (case DecodeString (map to_std_alphabet secretKey) of
        Inl err \<Rightarrow> Inl err
      | Inr key \<Rightarrow> Inr (map to_urlsafe_alphabet (EncodeToString (hmac_sha1 key (bytes_of input)))))"

section \<open>Library functions called by the URL builder\<close>

subsection \<open>fmt.Sprintf with the verb %.8f\<close>

text \<open>
  \<^verbatim>\<open>%.8f\<close> prints a finite \<^verbatim>\<open>float64\<close> as its exact value rounded to 8 decimals, ties to
  even: a minus sign when the sign bit is set (also for a zero), the integer part, a
  point, 8 digits. It prints \<^verbatim>\<open>NaN\<close>, \<^verbatim>\<open>+Inf\<close> and \<^verbatim>\<open>-Inf\<close> for the other values.
\<close>

definition digit :: "nat \<Rightarrow> char" where
  "digit d = ''0123456789'' ! (d mod 10)"

fun decimal :: "nat \<Rightarrow> string" where
  "decimal n = (if n < 10 then [digit n] else decimal (n div 10) @ [digit n])"

declare decimal.simps [simp del]

definition fraction8 :: "nat \<Rightarrow> string" where
  "fraction8 n = map (\<lambda>i. digit (n div 10 ^ i)) [7, 6, 5, 4, 3, 2, 1, 0]"

text \<open>\<open>scaled8 m e\<close> is \<open>m * 2\<^sup>e * 10\<^sup>8\<close> rounded to an integer, ties to even.\<close>

definition scaled8 :: "nat \<Rightarrow> int \<Rightarrow> nat" where
  "scaled8 m e =
     (if 0 \<le> e then m * 2 ^ nat e * 100000000
      else round_half_even (m * 100000000) (2 ^ nat (- e)))"

fun Sprintf_8f :: "float64 \<Rightarrow> string" where
  "Sprintf_8f NaN = ''NaN''"
| "Sprintf_8f (Inf s) = (if s then ''-Inf'' else ''+Inf'')"
| "Sprintf_8f (Finite s m e) =
     (if s then ''-'' else []) @ decimal (scaled8 m e div 100000000) @ ''.''
       @ fraction8 (scaled8 m e)"

subsection \<open>net/url\<close>

text \<open>
  \<^verbatim>\<open>url.QueryEscape\<close>: letters, digits and \<^verbatim>\<open>- _ . ~\<close> are kept, a space becomes \<^verbatim>\<open>+\<close>,
  every other byte becomes \<^verbatim>\<open>%\<close> and two upper-case hexadecimal digits.
\<close>

definition unreserved :: "char \<Rightarrow> bool" where
  "unreserved c =
     (let n = (of_char c :: nat) in
      (97 \<le> n \<and> n \<le> 122) \<or> (65 \<le> n \<and> n \<le> 90) \<or> (48 \<le> n \<and> n \<le> 57)
        \<or> c = CHR ''-'' \<or> c = CHR ''_'' \<or> c = CHR ''.'' \<or> c = CHR ''~'')"

definition upperhex :: "nat \<Rightarrow> char" where
  "upperhex d = ''0123456789ABCDEF'' ! (d mod 16)"

definition escape_byte :: "char \<Rightarrow> string" where
  "escape_byte c =
     (if unreserved c then [c]
      else if c = CHR '' '' then ''+''
      else [CHR ''%'', upperhex (of_char c div 16), upperhex (of_char c)])"

definition QueryEscape :: "string \<Rightarrow> string" where
  "QueryEscape s = concat (map escape_byte s)"

text \<open>
  \<^verbatim>\<open>url.Values\<close> maps a key to the list of its values; it is kept as an association list
  with distinct keys. \<^verbatim>\<open>Add\<close> appends a value to the list of its key. \<^verbatim>\<open>Encode\<close> sorts the
  keys (bytewise, as Go compares strings) and writes \<^verbatim>\<open>key=value\<close> for every value, both
  escaped, separated by \<^verbatim>\<open>&\<close>.
\<close>

type_synonym Values = "(string \<times> string list) list"

fun Add :: "Values \<Rightarrow> string \<Rightarrow> string \<Rightarrow> Values" where
  "Add [] key v = [(key, [v])]"
| "Add ((k, vs) # rest) key v =
     (if k = key then (k, vs @ [v]) # rest else (k, vs) # Add rest key v)"

fun join_amp :: "string list \<Rightarrow> string" where
  "join_amp [] = []"
| "join_amp [p] = p"
| "join_amp (p # q # ps) = p @ ''&'' @ join_amp (q # ps)"

definition Encode :: "Values \<Rightarrow> string" where
  "Encode v =
     join_amp (concat (map (\<lambda>(k, vs). map (\<lambda>x. QueryEscape k @ ''='' @ QueryEscape x) vs)
                           (sort_key fst v)))"

text \<open>
  The fields of \<^verbatim>\<open>url.URL\<close>. \<^verbatim>\<open>url.Parse\<close>, \<^verbatim>\<open>URL.String\<close> and the JSON decoder are library
  code outside this repository: the client is modelled for any behaviour of them, given
  as \<open>url_Parse\<close>, \<open>URL_String\<close> and \<open>json_Decode\<close>. \<open>json_Decode body\<close> is the outcome of
  \<^verbatim>\<open>json.NewDecoder(resp.Body).Decode(&res)\<close> for \<^verbatim>\<open>var res *GoogleResponse\<close>: an error, or
  the pointer left in \<^verbatim>\<open>res\<close>, which is nil when nothing was allocated.
\<close>

record URL =
  Scheme :: string
  Opaque :: string
  User :: "(string \<times> string option) option"
  Host :: string
  Path :: string
  RawPath :: string
  OmitHost :: bool
  ForceQuery :: bool
  RawQuery :: string
  Fragment :: string
  RawFragment :: string

record Lib =
  url_Parse :: "string \<Rightarrow> error + URL"
  URL_String :: "URL \<Rightarrow> string"
  json_Decode :: "string \<Rightarrow> error + GoogleResponse option"

section \<open>geocoder: construction and URL building\<close>

subsection \<open>NewGeocoder\<close>

definition NewGeocoder ::
  "BusinessKey option \<Rightarrow> string \<Rightarrow> string \<Rightarrow> HttpRequester option \<Rightarrow> int \<Rightarrow> Duration
     \<Rightarrow> RequestObserver option \<Rightarrow> (error + Geocoder) outcome" where
  "NewGeocoder bkey baseURL' language' client' requestPerSecond overQuerySleepDuration' observer' =
     (if bkey = None then Returns (Inl (errors_New ''empty BusinessKey''))
      else if baseURL' = [] then
        Returns (Inl (errors_New
          ''empty baseURL, use https://maps.googleapis.com/maps/api/geocode/json''))
      else if client' = None then Returns (Inl (errors_New ''empty HTTPClient''))
      else if requestPerSecond \<le> 0 then
        Returns (Inl (errors_New ''requestPerSecond must be a positive number''))
      else Returns (Inr
        \<lparr>businessKey = bkey,
         baseURL = baseURL',
         language = language',
         client = client',
         rps = requestPerSecond,
         overQuerySleepDuration = overQuerySleepDuration',
         observer = observer',
         limiter = Some (NewLimiter (rate_Limit requestPerSecond) 1)\<rparr>))"

subsection \<open>buildURL\<close>

text \<open>The query before the signature is added (lines 116 to 127 of the builder).\<close>

definition query_values :: "Geocoder \<Rightarrow> float64 \<Rightarrow> float64 \<Rightarrow> Values" where
  "query_values g lat lng =
     (let query = [];
          query = Add query ''latlng'' (Sprintf_8f lat @ '','' @ Sprintf_8f lng);
          query = Add query ''sensor'' ''false'';
          query = (if language g \<noteq> [] then Add query ''language'' (language g) else query)
      in case businessKey g of
           None \<Rightarrow> query
         | Some bk \<Rightarrow>
             (let query = Add query ''client'' (ClientID bk)
              in if Channel bk \<noteq> [] then Add query ''channel'' (Channel bk) else query))"

definition buildURL :: "Lib \<Rightarrow> Geocoder \<Rightarrow> float64 \<Rightarrow> float64 \<Rightarrow> (error + URL) outcome" where
  "buildURL L g lat lng =
     (case url_Parse L (baseURL g) of
        Inl err \<Rightarrow> Returns (Inl err)
      | Inr ur \<Rightarrow>
          (let query = query_values g lat lng;
               ur = ur\<lparr>RawQuery := Encode query\<rparr>
           in case getSignature g (Path ur @ ''?'' @ RawQuery ur) of
                Panics \<Rightarrow> Panics
              | Returns (Inl err) \<Rightarrow> Returns (Inl err)
              | Returns (Inr signature) \<Rightarrow>
                  Returns (Inr (ur\<lparr>RawQuery := Encode (Add query ''signature'' signature)\<rparr>))))"

section \<open>geocoder: ReverseGeocode\<close>

text \<open>
  What a call does besides returning is recorded as the list of its events, in order:
  waiting for the limiter, the request, the report to the observer, the two writes of the
  limiter's rate with the sleep between them, and the deferred close of the body.
  The inputs of a call from outside the program are the result of \<^verbatim>\<open>limiter.Wait(ctx)\<close>
  and the time measured around the request.
\<close>

datatype event =
    LimiterWait
  | HttpGet string
  | ObserveHTTPRequest string Duration
  | LimiterSetLimit float64
  | Sleep Duration
  | BodyClose

record Call =
  wait_err :: "error option"
  elapsed :: Duration

definition ReverseGeocode ::
  "Lib \<Rightarrow> Call \<Rightarrow> Geocoder \<Rightarrow> float64 \<Rightarrow> float64
     \<Rightarrow> (error + GoogleResponse) outcome \<times> event list \<times> Geocoder" where
  "ReverseGeocode L cx g lat lng =
     (case limiter g of
        None \<Rightarrow> (Panics, [], g)
      | Some lim \<Rightarrow>
     (case wait_err cx of
        Some err \<Rightarrow> (Returns (Inl err), [LimiterWait], g)
      | None \<Rightarrow>
     (case buildURL L g lat lng of
        Panics \<Rightarrow> (Panics, [LimiterWait], g)
      | Returns (Inl err) \<Rightarrow> (Returns (Inl err), [LimiterWait], g)
      | Returns (Inr ur) \<Rightarrow>
     (case client g of
        None \<Rightarrow> (Panics, [LimiterWait], g)
      | Some c \<Rightarrow>
     (case c (URL_String L ur) of
        (_, Some err) \<Rightarrow> (Returns (Inl err), [LimiterWait, HttpGet (URL_String L ur)], g)
      | (None, None) \<Rightarrow> (Panics, [LimiterWait, HttpGet (URL_String L ur)], g)
      | (Some resp, None) \<Rightarrow>
          (let evs = [LimiterWait, HttpGet (URL_String L ur)]
                 @ (case observer g of
                      None \<Rightarrow> []
                    | Some _ \<Rightarrow> [ObserveHTTPRequest ''google'' (elapsed cx)])
           in case json_Decode L (Body resp) of
                Inl err \<Rightarrow> (Returns (Inl err), evs @ [BodyClose], g)
              | Inr None \<Rightarrow> (Panics, evs @ [BodyClose], g)
              | Inr (Some res) \<Rightarrow>
                  (if Status res = GRS_OVER_QUERY_LIMIT
                   then (Returns (Inr res),
                         evs @ [LimiterSetLimit (rate_Limit 0),
                                Sleep (overQuerySleepDuration g),
                                LimiterSetLimit (rate_Limit (rps g)),
                                BodyClose],
                         g\<lparr>limiter := Some (SetLimit (SetLimit lim (rate_Limit 0))
                                                  (rate_Limit (rps g)))\<rparr>)
                   else (Returns (Inr res), evs @ [BodyClose], g))))))))"



fun is_throttle_event :: "event \<Rightarrow> bool" where
  "is_throttle_event (LimiterSetLimit l) = True"
| "is_throttle_event (Sleep d) = True"
| "is_throttle_event _ = False"

text \<open>
  The states a client can be in: the one \<^verbatim>\<open>NewGeocoder\<close> returns, and the one left by a
  call of \<^verbatim>\<open>ReverseGeocode\<close> on a state it can be in, whatever the call's inputs were.
\<close>

inductive reachable :: "Lib \<Rightarrow> int \<Rightarrow> Geocoder \<Rightarrow> bool" for L :: Lib and n :: int where
  constructed:
    "NewGeocoder bkey url lang cl n d obs = Returns (Inr g) \<Longrightarrow> reachable L n g"
| called:
    "reachable L n g \<Longrightarrow> ReverseGeocode L cx g lat lng = (out, evs, g') \<Longrightarrow> reachable L n g'"



section \<open>Reading a query back\<close>

text \<open>
  The parameters of a raw query in the order they are transmitted: the query is cut at
  every \<^verbatim>\<open>&\<close> and each part at its first \<^verbatim>\<open>=\<close>. Keys and values are left escaped.
\<close>

fun split_on :: "char \<Rightarrow> string \<Rightarrow> string list" where
  "split_on c [] = [[]]"
| "split_on c (x # xs) =
     (if x = c then [] # split_on c xs
      else (case split_on c xs of [] \<Rightarrow> [[x]] | p # ps \<Rightarrow> (x # p) # ps))"

definition cut_eq :: "string \<Rightarrow> string \<times> string" where
  "cut_eq p = (takeWhile (\<lambda>c. c \<noteq> CHR ''='') p, drop 1 (dropWhile (\<lambda>c. c \<noteq> CHR ''='') p))"

definition query_pairs :: "string \<Rightarrow> (string \<times> string) list" where
  "query_pairs q = (if q = [] then [] else map cut_eq (split_on (CHR ''&'') q))"

text \<open>
  \<^verbatim>\<open>url.QueryUnescape\<close>: \<^verbatim>\<open>+\<close> is a space, \<^verbatim>\<open>%\<close> must be followed by two hexadecimal
  digits and stands for that byte.
\<close>

definition unhex :: "char \<Rightarrow> nat option" where
  "unhex c =
     (let n = (of_char c :: nat) in
      if 48 \<le> n \<and> n \<le> 57 then Some (n - 48)
      else if 97 \<le> n \<and> n \<le> 102 then Some (n - 87)
      else if 65 \<le> n \<and> n \<le> 70 then Some (n - 55)
      else None)"

fun QueryUnescape :: "string \<Rightarrow> error + string" where
  "QueryUnescape [] = Inr []"
| "QueryUnescape (c # r) =
     (if c = CHR ''%'' then
        (case r of
           a # b # r' \<Rightarrow>
             (case (unhex a, unhex b) of
                (Some x, Some y) \<Rightarrow>
                  (case QueryUnescape r' of
                     Inl err \<Rightarrow> Inl err
                   | Inr s \<Rightarrow> Inr (char_of (16 * x + y) # s))
              | _ \<Rightarrow> Inl (LibError ''invalid URL escape''))
         | _ \<Rightarrow> Inl (LibError ''invalid URL escape''))
      else (case QueryUnescape r of
              Inl err \<Rightarrow> Inl err
            | Inr s \<Rightarrow> Inr ((if c = CHR ''+'' then CHR '' '' else c) # s)))"



section \<open>The earlier variant of the client (geoc.go)\<close>

text \<open>
  \<^verbatim>\<open>geoc.go\<close> holds an earlier variant: no observer, the URL is built as a string with the
  parameters in the order they are written, and \<^verbatim>\<open>ReverseGeocode\<close> parses that string,
  signs its path and query, and appends the signature unescaped. The body is closed only
  once it has been decoded. \<^verbatim>\<open>getSignature\<close> is the same function in both variants.
\<close>

definition NewGeocoder_geoc ::
  "BusinessKey option \<Rightarrow> string \<Rightarrow> string \<Rightarrow> HttpRequester option \<Rightarrow> int \<Rightarrow> Duration
     \<Rightarrow> (error + Geocoder) outcome" where
  "NewGeocoder_geoc bkey baseURL' language' client' requestPerSecond overQuerySleepDuration' =
     (if bkey = None then Returns (Inl (errors_New ''empty BusinessKey''))
      else if baseURL' = [] then
        Returns (Inl (errors_New
          ''empty baseURL, use https://maps.googleapis.com/maps/api/geocode/json''))
      else if client' = None then Returns (Inl (errors_New ''empty HTTPClient''))
      else if requestPerSecond \<le> 0 then
        Returns (Inl (errors_New ''requestPerSecond must be a positive number''))
      else Returns (Inr
        \<lparr>businessKey = bkey,
         baseURL = baseURL',
         language = language',
         client = client',
         rps = requestPerSecond,
         overQuerySleepDuration = overQuerySleepDuration',
         observer = None,
         limiter = Some (NewLimiter (rate_Limit requestPerSecond) 1)\<rparr>))"

definition buildURL_geoc :: "Geocoder \<Rightarrow> float64 \<Rightarrow> float64 \<Rightarrow> string" where
  "buildURL_geoc g lat lng =
     (let result = baseURL g @ ''?latlng='' @ (Sprintf_8f lat @ '','' @ Sprintf_8f lng)
                     @ ''&sensor=false'';
          result = (if language g \<noteq> [] then result @ ''&language='' @ QueryEscape (language g)
                    else result)
      in case businessKey g of
           None \<Rightarrow> result
         | Some bk \<Rightarrow>
             (let result = result @ ''&client='' @ QueryEscape (ClientID bk)
              in if Channel bk \<noteq> [] then result @ ''&channel='' @ QueryEscape (Channel bk)
                 else result))"

definition ReverseGeocode_geoc ::
  "Lib \<Rightarrow> Call \<Rightarrow> Geocoder \<Rightarrow> float64 \<Rightarrow> float64
     \<Rightarrow> (error + GoogleResponse) outcome \<times> event list \<times> Geocoder" where
  "ReverseGeocode_geoc L cx g lat lng =
     (case limiter g of
        None \<Rightarrow> (Panics, [], g)
      | Some lim \<Rightarrow>
     (case wait_err cx of
        Some err \<Rightarrow> (Returns (Inl err), [LimiterWait], g)
      | None \<Rightarrow>
     (case url_Parse L (buildURL_geoc g lat lng) of
        Inl err \<Rightarrow> (Returns (Inl err), [LimiterWait], g)
      | Inr ur \<Rightarrow>
     (case getSignature g (Path ur @ ''?'' @ RawQuery ur) of
        Panics \<Rightarrow> (Panics, [LimiterWait], g)
      | Returns (Inl err) \<Rightarrow> (Returns (Inl err), [LimiterWait], g)
      | Returns (Inr signature) \<Rightarrow>
     (let targetURL = buildURL_geoc g lat lng @ ''&signature='' @ signature
      in case client g of
        None \<Rightarrow> (Panics, [LimiterWait], g)
      | Some c \<Rightarrow>
     (case c targetURL of
        (_, Some err) \<Rightarrow> (Returns (Inl err), [LimiterWait, HttpGet targetURL], g)
      | (None, None) \<Rightarrow> (Panics, [LimiterWait, HttpGet targetURL], g)
      | (Some resp, None) \<Rightarrow>
          (case json_Decode L (Body resp) of
             Inl err \<Rightarrow> (Returns (Inl err), [LimiterWait, HttpGet targetURL], g)
           | Inr None \<Rightarrow> (Panics, [LimiterWait, HttpGet targetURL, BodyClose], g)
           | Inr (Some res) \<Rightarrow>
               (if Status res = GRS_OVER_QUERY_LIMIT
                then (Returns (Inr res),
                      [LimiterWait, HttpGet targetURL,
                       LimiterSetLimit (rate_Limit 0),
                       Sleep (overQuerySleepDuration g),
                       LimiterSetLimit (rate_Limit (rps g)),
                       BodyClose],
                      g\<lparr>limiter := Some (SetLimit (SetLimit lim (rate_Limit 0))
                                               (rate_Limit (rps g)))\<rparr>)
                else (Returns (Inr res),
                      [LimiterWait, HttpGet targetURL, BodyClose], g)))))))))"

section \<open>The wire format of the specification\<close>

text \<open>
  Parameters serialised in the order given, every key and value escaped
  (section 6 of the specification: "all percent-encoded per standard rules").
\<close>

definition wire :: "(string \<times> string) list \<Rightarrow> string" where
  "wire ps = join_amp (map (\<lambda>(k, v). QueryEscape k @ ''='' @ QueryEscape v) ps)"

text \<open>
  The parameters of a request before it is signed, in ascending order of their keys, for
  the credentials \<open>bk\<close>: \<^verbatim>\<open>channel\<close> when one is configured, \<^verbatim>\<open>client\<close>, \<^verbatim>\<open>language\<close> when
  one is configured, \<^verbatim>\<open>latlng\<close> and \<^verbatim>\<open>sensor\<close>.
\<close>

definition canonical_params ::
  "Geocoder \<Rightarrow> BusinessKey \<Rightarrow> float64 \<Rightarrow> float64 \<Rightarrow> (string \<times> string) list" where
  "canonical_params g bk lat lng =
     (if Channel bk \<noteq> [] then [(''channel'', Channel bk)] else [])
     @ [(''client'', ClientID bk)]
     @ (if language g \<noteq> [] then [(''language'', language g)] else [])
     @ [(''latlng'', Sprintf_8f lat @ '','' @ Sprintf_8f lng), (''sensor'', ''false'')]"

text \<open>The raw query of the URL a call of the builder returned; empty when it returned none.\<close>

definition raw_query_of :: "(error + URL) outcome \<Rightarrow> string" where
  "raw_query_of r = (case r of Returns (Inr u) \<Rightarrow> RawQuery u | _ \<Rightarrow> [])"

section \<open>The values of the repository's tests\<close>

text \<open>
  The credentials, endpoint and coordinates of \<^verbatim>\<open>Test_buildURL\<close> and \<^verbatim>\<open>Test_ReverseGeocode\<close>,
  and transports like the tests' fake one. \<open>45.32\<close> and \<open>12.67\<close> are the doubles nearest to
  these decimals. The library is instantiated with what \<^verbatim>\<open>url.Parse\<close> returns for the
  endpoint, with \<^verbatim>\<open>URL.String\<close> for a URL that has a scheme, a host, a path and a query, and
  with the decoder's results on the bodies used here.
\<close>

definition test_key :: BusinessKey where
  "test_key = \<lparr>ClientID = ''my_test_client'', SigningKey = ''bXlfdGVzdF9rZXk='',
                Channel = ''grg-local''\<rparr>"

definition test_endpoint :: string where
  "test_endpoint = ''https://maps.googleapis.com/maps/api/geocode/json''"

definition test_url :: URL where
  "test_url = \<lparr>Scheme = ''https'', Opaque = [], User = None, Host = ''maps.googleapis.com'',
                Path = ''/maps/api/geocode/json'', RawPath = [], OmitHost = False,
                ForceQuery = False, RawQuery = [], Fragment = [], RawFragment = []\<rparr>"

definition over_limit_body :: string where
  \<open>over_limit_body = ''{"status":"OVER_QUERY_LIMIT"}''\<close>

definition test_lib :: Lib where
  "test_lib =
     \<lparr>url_Parse = (\<lambda>s. if s = test_endpoint then Inr test_url
                        else Inl (LibError ''parse'')),
      URL_String = (\<lambda>u. Scheme u @ ''://'' @ Host u @ Path u @ ''?'' @ RawQuery u),
      json_Decode = (\<lambda>body.
        if body = ''null'' then Inr None
        else if body = over_limit_body
        then Inr (Some \<lparr>Results = [], Status = GRS_OVER_QUERY_LIMIT\<rparr>)
        else Inl (LibError ''unexpected end of JSON input''))\<rparr>"

definition lat_45_32 :: float64 where
  "lat_45_32 = Finite False 6378222972263465 (- 47)"

definition lng_12_67 :: float64 where
  "lng_12_67 = Finite False 7132575909848023 (- 49)"

definition failing_transport :: HttpRequester where
  "failing_transport = (\<lambda>targetURL. (Some \<lparr>Body = []\<rparr>, Some (errors_New ''failed'')))"

definition over_limit_transport :: HttpRequester where
  "over_limit_transport = (\<lambda>targetURL. (Some \<lparr>Body = over_limit_body\<rparr>, None))"

definition null_transport :: HttpRequester where
  "null_transport = (\<lambda>targetURL. (Some \<lparr>Body = ''null''\<rparr>, None))"

definition test_geocoder :: "HttpRequester \<Rightarrow> Geocoder" where
  "test_geocoder c =
     \<lparr>businessKey = Some test_key,
      baseURL = test_endpoint,
      language = ''en'',
      client = Some c,
      rps = 5,
      overQuerySleepDuration = 100000000,
      observer = None,
      limiter = Some (NewLimiter (rate_Limit 5) 1)\<rparr>"

definition test_call :: Call where
  "test_call = \<lparr>wait_err = None, elapsed = 1000\<rparr>"

definition built_query :: string where
  "built_query =
     ''channel=grg-local&client=my_test_client&language=en&latlng=45.32000000%2C12.67000000&sensor=false&signature=bdwh-bmlibC2w2N_A2tgt7pSuAE%3D''"

definition no_channel_geocoder :: Geocoder where
  "no_channel_geocoder =
     (test_geocoder failing_transport)\<lparr>businessKey := Some (test_key\<lparr>Channel := []\<rparr>)\<rparr>"

section \<open>Reading a printed number back\<close>

text \<open>The number a string of decimal digits stands for.\<close>

definition digit_value :: "char \<Rightarrow> nat" where
  "digit_value c = of_char c - 48"

definition read_digits :: "string \<Rightarrow> nat" where
  "read_digits s = foldl (\<lambda>a c. 10 * a + digit_value c) 0 s"

section \<open>Properties of the signer\<close>

lemma expand_numeral [simp]:
  "expand (numeral k) ws =
     expand (pred_numeral k) (rotl 1 (ws ! 2 XOR ws ! 7 XOR ws ! 13 XOR ws ! 15) # ws)"
  by (simp add: numeral_eq_Suc)

lemma blocks_numeral:
  "blocks (numeral k) p = take 64 p # blocks (pred_numeral k) (drop 64 p)"
  by (simp add: numeral_eq_Suc)

lemma replicate_numeral:
  "replicate (numeral k) x = x # replicate (pred_numeral k) x"
  by (simp add: numeral_eq_Suc)

lemma fixture_key:
  "DecodeString ''bXlfdGVzdF9rZXk='' = Inr [109, 121, 95, 116, 101, 115, 116, 95, 107, 101, 121]"
  by (simp add: DecodeString_def decodeMap_def quantum_def is_newline_def)

lemma fixture_hmac_key:
  "hmac_key [109, 121, 95, 116, 101, 115, 116, 95, 107, 101, 121]
   = [109, 121, 95, 116, 101, 115, 116, 95, 107, 101, 121, 0, 0, 0, 0, 0, 0, 0, 0, 0, 0, 0, 0, 0, 0, 0, 0, 0, 0, 0, 0, 0, 0, 0, 0, 0, 0, 0, 0, 0, 0, 0, 0, 0, 0, 0, 0, 0, 0, 0, 0, 0, 0, 0, 0, 0, 0, 0, 0, 0, 0, 0, 0, 0]"
  by (simp add: hmac_key_def replicate_numeral)

lemma fixture_block1:
  "sha1_block (1732584193, 4023233417, 2562383102, 271733878, 3285377520)
     [91, 79, 105, 66, 83, 69, 66, 105, 93, 83, 79, 54, 54, 54, 54, 54, 54, 54, 54, 54, 54, 54, 54, 54, 54, 54, 54, 54, 54, 54, 54, 54, 54, 54, 54, 54, 54, 54, 54, 54, 54, 54, 54, 54, 54, 54, 54, 54, 54, 54, 54, 54, 54, 54, 54, 54, 54, 54, 54, 54, 54, 54, 54, 54]
   = (2189373334, 4001126917, 1072987686, 767008128, 3030115125)"
  by (simp add: sha1_block_def schedule_def rotl_def Ch_def Parity_def Maj_def Let_def)

lemma fixture_block2:
  "sha1_block (2189373334, 4001126917, 1072987686, 767008128, 3030115125)
     [47, 109, 97, 112, 115, 47, 97, 112, 105, 47, 103, 101, 111, 99, 111, 100, 101, 47, 120, 109, 108, 63, 108, 97, 116, 108, 110, 103, 61, 52, 57, 46, 49, 55, 53, 56, 52, 52, 52, 48, 44, 55, 46, 51, 48, 49, 57, 54, 48, 55, 48, 38, 115, 101, 110, 115, 111, 114, 61, 102, 97, 108, 115, 101]
   = (613442485, 1658977430, 193693803, 2105699909, 300216633)"
  by (simp add: sha1_block_def schedule_def rotl_def Ch_def Parity_def Maj_def Let_def)

lemma fixture_block3:
  "sha1_block (613442485, 1658977430, 193693803, 2105699909, 300216633)
     [38, 99, 108, 105, 101, 110, 116, 61, 109, 121, 95, 116, 101, 115, 116, 95, 99, 108, 105, 101, 110, 116, 38, 99, 104, 97, 110, 110, 101, 108, 61, 103, 114, 103, 45, 108, 111, 99, 97, 108, 128, 0, 0, 0, 0, 0, 0, 0, 0, 0, 0, 0, 0, 0, 0, 0, 0, 0, 0, 0, 0, 0, 5, 64]
   = (422385079, 3188583562, 700910601, 3879003280, 3929444676)"
  by (simp add: sha1_block_def schedule_def rotl_def Ch_def Parity_def Maj_def Let_def)

lemma fixture_block4:
  "sha1_block (1732584193, 4023233417, 2562383102, 271733878, 3285377520)
     [49, 37, 3, 40, 57, 47, 40, 3, 55, 57, 37, 92, 92, 92, 92, 92, 92, 92, 92, 92, 92, 92, 92, 92, 92, 92, 92, 92, 92, 92, 92, 92, 92, 92, 92, 92, 92, 92, 92, 92, 92, 92, 92, 92, 92, 92, 92, 92, 92, 92, 92, 92, 92, 92, 92, 92, 92, 92, 92, 92, 92, 92, 92, 92]
   = (2828131880, 1118072955, 2959573253, 3009071916, 4270649005)"
  by (simp add: sha1_block_def schedule_def rotl_def Ch_def Parity_def Maj_def Let_def)

lemma fixture_block5:
  "sha1_block (2828131880, 1118072955, 2959573253, 3009071916, 4270649005)
     [25, 45, 21, 183, 190, 13, 236, 138, 41, 199, 12, 9, 231, 52, 228, 144, 234, 54, 145, 68, 128, 0, 0, 0, 0, 0, 0, 0, 0, 0, 0, 0, 0, 0, 0, 0, 0, 0, 0, 0, 0, 0, 0, 0, 0, 0, 0, 0, 0, 0, 0, 0, 0, 0, 0, 0, 0, 0, 0, 0, 0, 0, 2, 160]
   = (2086880553, 4258838436, 2993674065, 395150574, 4189394691)"
  by (simp add: sha1_block_def schedule_def rotl_def Ch_def Parity_def Maj_def Let_def)

lemma fixture_inner:
  "sha1_Sum (map (\<lambda>b. b XOR 0x36) [109, 121, 95, 116, 101, 115, 116, 95, 107, 101, 121, 0, 0, 0, 0, 0, 0, 0, 0, 0, 0, 0, 0, 0, 0, 0, 0, 0, 0, 0, 0, 0, 0, 0, 0, 0, 0, 0, 0, 0, 0, 0, 0, 0, 0, 0, 0, 0, 0, 0, 0, 0, 0, 0, 0, 0, 0, 0, 0, 0, 0, 0, 0, 0]
      @ bytes_of ''/maps/api/geocode/xml?latlng=49.17584440,7.30196070&sensor=false&client=my_test_client&channel=grg-local'')
   = [25, 45, 21, 183, 190, 13, 236, 138, 41, 199, 12, 9, 231, 52, 228, 144, 234, 54, 145, 68]"
  by (simp add: sha1_Sum_def sha1_pad_def bytes_of_def be_bytes64_def be_bytes32_def sha1_init_def
        replicate_numeral blocks_numeral fixture_block1 fixture_block2 fixture_block3)

lemma fixture_outer:
  "sha1_Sum (map (\<lambda>b. b XOR 0x5c) [109, 121, 95, 116, 101, 115, 116, 95, 107, 101, 121, 0, 0, 0, 0, 0, 0, 0, 0, 0, 0, 0, 0, 0, 0, 0, 0, 0, 0, 0, 0, 0, 0, 0, 0, 0, 0, 0, 0, 0, 0, 0, 0, 0, 0, 0, 0, 0, 0, 0, 0, 0, 0, 0, 0, 0, 0, 0, 0, 0, 0, 0, 0, 0]
      @ [25, 45, 21, 183, 190, 13, 236, 138, 41, 199, 12, 9, 231, 52, 228, 144, 234, 54, 145, 68])
   = [124, 99, 69, 41, 253, 216, 183, 164, 178, 111, 215, 81, 23, 141, 132, 238, 249, 181, 23, 3]"
  by (simp add: sha1_Sum_def sha1_pad_def be_bytes64_def be_bytes32_def sha1_init_def
        replicate_numeral blocks_numeral fixture_block4 fixture_block5)

lemma fixture_hmac:
  "hmac_sha1 [109, 121, 95, 116, 101, 115, 116, 95, 107, 101, 121]
      (bytes_of ''/maps/api/geocode/xml?latlng=49.17584440,7.30196070&sensor=false&client=my_test_client&channel=grg-local'')
   = [124, 99, 69, 41, 253, 216, 183, 164, 178, 111, 215, 81, 23, 141, 132, 238, 249, 181, 23, 3]"
  by (simp only: hmac_sha1_def fixture_hmac_key fixture_inner fixture_outer)

lemma fixture_encoded:
  "EncodeToString [124, 99, 69, 41, 253, 216, 183, 164, 178, 111, 215, 81, 23, 141, 132, 238, 249, 181, 23, 3]
   = ''fGNFKf3Yt6Syb9dRF42E7vm1FwM=''"
  by (simp add: sextet_def encodeStd_def)

lemma to_std_alphabet_ReplaceAll:
  "strings_ReplaceAll (strings_ReplaceAll s (CHR ''-'') (CHR ''+'')) (CHR ''_'') (CHR ''/'')
     = map to_std_alphabet s"
  by (simp add: strings_ReplaceAll_def to_std_alphabet_def)

lemma to_urlsafe_alphabet_ReplaceAll:
  "strings_ReplaceAll (strings_ReplaceAll s (CHR ''+'') (CHR ''-'')) (CHR ''/'') (CHR ''_'')
     = map to_urlsafe_alphabet s"
  by (simp add: strings_ReplaceAll_def to_urlsafe_alphabet_def)

lemma getSignature_sign_spec:
  "businessKey g = Some bk \<Longrightarrow> getSignature g t = Returns (sign_spec (SigningKey bk) t)"
  by (simp add: getSignature_def sign_spec_def Let_def to_std_alphabet_ReplaceAll
        to_urlsafe_alphabet_ReplaceAll split: sum.splits)

lemma fixture_sign_spec:
  "sign_spec ''bXlfdGVzdF9rZXk=''
     ''/maps/api/geocode/xml?latlng=49.17584440,7.30196070&sensor=false&client=my_test_client&channel=grg-local''
   = Inr ''fGNFKf3Yt6Syb9dRF42E7vm1FwM=''"
proof -
  have key: "map to_std_alphabet ''bXlfdGVzdF9rZXk='' = ''bXlfdGVzdF9rZXk=''"
    by (simp add: to_std_alphabet_def)
  have out: "map to_urlsafe_alphabet ''fGNFKf3Yt6Syb9dRF42E7vm1FwM='' = ''fGNFKf3Yt6Syb9dRF42E7vm1FwM=''"
    by (simp add: to_urlsafe_alphabet_def)
  show ?thesis
    unfolding sign_spec_def key fixture_key
    by (simp only: sum.case fixture_hmac fixture_encoded out)
qed

text \<open>
  C1. The signing function is the reference definition of the specification, as a function
  that returns an error or a value: the key is translated to the standard alphabet and
  decoded (a decoding error is returned, with no signature), the HMAC-SHA1 of the bytes of
  the input is encoded with the standard alphabet and translated to the URL-safe one with
  its padding. For the key and the input of the repository's test it returns the
  signature the test expects.
\<close>

theorem getSignature_is_sign_spec:
  "getSignature (g\<lparr>businessKey := Some bk\<rparr>) targetURL = Returns (sign_spec (SigningKey bk) targetURL)
   \<and> getSignature
        (g\<lparr>businessKey := Some \<lparr>ClientID = c, SigningKey = ''bXlfdGVzdF9rZXk='', Channel = ch\<rparr>\<rparr>)
        ''/maps/api/geocode/xml?latlng=49.17584440,7.30196070&sensor=false&client=my_test_client&channel=grg-local''
      = Returns (Inr ''fGNFKf3Yt6Syb9dRF42E7vm1FwM='')"
  by (simp add: getSignature_sign_spec fixture_sign_spec)

section \<open>The signature of the URL built in the tests\<close>

lemma built_block1:
  "sha1_block (1732584193, 4023233417, 2562383102, 271733878, 3285377520)
     [91, 79, 105, 66, 83, 69, 66, 105, 93, 83, 79, 54, 54, 54, 54, 54, 54, 54, 54, 54, 54, 54, 54, 54, 54, 54, 54, 54, 54, 54, 54, 54, 54, 54, 54, 54, 54, 54, 54, 54, 54, 54, 54, 54, 54, 54, 54, 54, 54, 54, 54, 54, 54, 54, 54, 54, 54, 54, 54, 54, 54, 54, 54, 54]
   = (2189373334, 4001126917, 1072987686, 767008128, 3030115125)"
  by (simp add: sha1_block_def schedule_def rotl_def Ch_def Parity_def Maj_def Let_def)

lemma built_block2:
  "sha1_block (2189373334, 4001126917, 1072987686, 767008128, 3030115125)
     [47, 109, 97, 112, 115, 47, 97, 112, 105, 47, 103, 101, 111, 99, 111, 100, 101, 47, 106, 115, 111, 110, 63, 99, 104, 97, 110, 110, 101, 108, 61, 103, 114, 103, 45, 108, 111, 99, 97, 108, 38, 99, 108, 105, 101, 110, 116, 61, 109, 121, 95, 116, 101, 115, 116, 95, 99, 108, 105, 101, 110, 116, 38, 108]
   = (3422868034, 702838163, 3606708910, 509040258, 2304196203)"
  by (simp add: sha1_block_def schedule_def rotl_def Ch_def Parity_def Maj_def Let_def)

lemma built_block3:
  "sha1_block (3422868034, 702838163, 3606708910, 509040258, 2304196203)
     [97, 110, 103, 117, 97, 103, 101, 61, 101, 110, 38, 108, 97, 116, 108, 110, 103, 61, 52, 53, 46, 51, 50, 48, 48, 48, 48, 48, 48, 37, 50, 67, 49, 50, 46, 54, 55, 48, 48, 48, 48, 48, 48, 38, 115, 101, 110, 115, 111, 114, 61, 102, 97, 108, 115, 101, 128, 0, 0, 0, 0, 0, 0, 0]
   = (2402149040, 552953350, 3284027451, 3497240191, 3123901480)"
  by (simp add: sha1_block_def schedule_def rotl_def Ch_def Parity_def Maj_def Let_def)

lemma built_block4:
  "sha1_block (2402149040, 552953350, 3284027451, 3497240191, 3123901480)
     [0, 0, 0, 0, 0, 0, 0, 0, 0, 0, 0, 0, 0, 0, 0, 0, 0, 0, 0, 0, 0, 0, 0, 0, 0, 0, 0, 0, 0, 0, 0, 0, 0, 0, 0, 0, 0, 0, 0, 0, 0, 0, 0, 0, 0, 0, 0, 0, 0, 0, 0, 0, 0, 0, 0, 0, 0, 0, 0, 0, 0, 0, 5, 192]
   = (2980274944, 2981043533, 2549556124, 738475381, 933546614)"
  by (simp add: sha1_block_def schedule_def rotl_def Ch_def Parity_def Maj_def Let_def)

lemma built_block5:
  "sha1_block (1732584193, 4023233417, 2562383102, 271733878, 3285377520)
     [49, 37, 3, 40, 57, 47, 40, 3, 55, 57, 37, 92, 92, 92, 92, 92, 92, 92, 92, 92, 92, 92, 92, 92, 92, 92, 92, 92, 92, 92, 92, 92, 92, 92, 92, 92, 92, 92, 92, 92, 92, 92, 92, 92, 92, 92, 92, 92, 92, 92, 92, 92, 92, 92, 92, 92, 92, 92, 92, 92, 92, 92, 92, 92]
   = (2828131880, 1118072955, 2959573253, 3009071916, 4270649005)"
  by (simp add: sha1_block_def schedule_def rotl_def Ch_def Parity_def Maj_def Let_def)

lemma built_block6:
  "sha1_block (2828131880, 1118072955, 2959573253, 3009071916, 4270649005)
     [177, 163, 99, 0, 177, 175, 29, 77, 151, 247, 35, 156, 44, 4, 61, 117, 55, 164, 202, 118, 128, 0, 0, 0, 0, 0, 0, 0, 0, 0, 0, 0, 0, 0, 0, 0, 0, 0, 0, 0, 0, 0, 0, 0, 0, 0, 0, 0, 0, 0, 0, 0, 0, 0, 0, 0, 0, 0, 0, 0, 0, 0, 2, 160]
   = (1843143161, 3114633648, 3066258303, 57368759, 3125983233)"
  by (simp add: sha1_block_def schedule_def rotl_def Ch_def Parity_def Maj_def Let_def)

lemma built_inner:
  "sha1_Sum (map (\<lambda>b. b XOR 0x36) [109, 121, 95, 116, 101, 115, 116, 95, 107, 101, 121, 0, 0, 0, 0, 0, 0, 0, 0, 0, 0, 0, 0, 0, 0, 0, 0, 0, 0, 0, 0, 0, 0, 0, 0, 0, 0, 0, 0, 0, 0, 0, 0, 0, 0, 0, 0, 0, 0, 0, 0, 0, 0, 0, 0, 0, 0, 0, 0, 0, 0, 0, 0, 0]
      @ bytes_of ''/maps/api/geocode/json?channel=grg-local&client=my_test_client&language=en&latlng=45.32000000%2C12.67000000&sensor=false'')
   = [177, 163, 99, 0, 177, 175, 29, 77, 151, 247, 35, 156, 44, 4, 61, 117, 55, 164, 202, 118]"
  by (simp add: sha1_Sum_def sha1_pad_def bytes_of_def be_bytes64_def be_bytes32_def sha1_init_def
        replicate_numeral blocks_numeral built_block1 built_block2 built_block3 built_block4)

lemma built_outer:
  "sha1_Sum (map (\<lambda>b. b XOR 0x5c) [109, 121, 95, 116, 101, 115, 116, 95, 107, 101, 121, 0, 0, 0, 0, 0, 0, 0, 0, 0, 0, 0, 0, 0, 0, 0, 0, 0, 0, 0, 0, 0, 0, 0, 0, 0, 0, 0, 0, 0, 0, 0, 0, 0, 0, 0, 0, 0, 0, 0, 0, 0, 0, 0, 0, 0, 0, 0, 0, 0, 0, 0, 0, 0]
      @ [177, 163, 99, 0, 177, 175, 29, 77, 151, 247, 35, 156, 44, 4, 61, 117, 55, 164, 202, 118])
   = [109, 220, 33, 249, 185, 165, 137, 176, 182, 195, 99, 127, 3, 107, 96, 183, 186, 82, 184, 1]"
  by (simp add: sha1_Sum_def sha1_pad_def be_bytes64_def be_bytes32_def sha1_init_def
        replicate_numeral blocks_numeral built_block5 built_block6)

lemma built_hmac:
  "hmac_sha1 [109, 121, 95, 116, 101, 115, 116, 95, 107, 101, 121]
      (bytes_of ''/maps/api/geocode/json?channel=grg-local&client=my_test_client&language=en&latlng=45.32000000%2C12.67000000&sensor=false'')
   = [109, 220, 33, 249, 185, 165, 137, 176, 182, 195, 99, 127, 3, 107, 96, 183, 186, 82, 184, 1]"
  by (simp only: hmac_sha1_def fixture_hmac_key built_inner built_outer)

lemma built_encoded:
  "EncodeToString [109, 220, 33, 249, 185, 165, 137, 176, 182, 195, 99, 127, 3, 107, 96, 183, 186, 82, 184, 1]
   = ''bdwh+bmlibC2w2N/A2tgt7pSuAE=''"
  by (simp add: sextet_def encodeStd_def)

lemma built_sign_spec:
  "sign_spec ''bXlfdGVzdF9rZXk=''
     ''/maps/api/geocode/json?channel=grg-local&client=my_test_client&language=en&latlng=45.32000000%2C12.67000000&sensor=false''
   = Inr ''bdwh-bmlibC2w2N_A2tgt7pSuAE=''"
proof -
  have key: "map to_std_alphabet ''bXlfdGVzdF9rZXk='' = ''bXlfdGVzdF9rZXk=''"
    by (simp add: to_std_alphabet_def)
  have out: "map to_urlsafe_alphabet ''bdwh+bmlibC2w2N/A2tgt7pSuAE='' = ''bdwh-bmlibC2w2N_A2tgt7pSuAE=''"
    by (simp add: to_urlsafe_alphabet_def)
  show ?thesis
    unfolding sign_spec_def key fixture_key
    by (simp only: sum.case built_hmac built_encoded out)
qed

section \<open>Properties of the serialisation\<close>

lemma not_unreserved_amp: "\<not> unreserved (CHR ''&'')" "\<not> unreserved (CHR ''='')"
  "\<not> unreserved (CHR ''%'')" "\<not> unreserved (CHR ''+'')"
  by (simp_all add: unreserved_def)

lemma upperhex_cases:
  "upperhex d \<in> set ''0123456789ABCDEF''"
  unfolding upperhex_def by (rule nth_mem) simp

lemma upperhex_plain: "upperhex d \<noteq> CHR ''&'' \<and> upperhex d \<noteq> CHR ''=''"
  using upperhex_cases [of d] by auto

lemma escape_byte_chars:
  "x \<in> set (escape_byte c) \<Longrightarrow> x \<noteq> CHR ''&'' \<and> x \<noteq> CHR ''=''"
  using upperhex_plain not_unreserved_amp
  by (auto simp: escape_byte_def split: if_splits)

lemma QueryEscape_chars:
  "x \<in> set (QueryEscape s) \<Longrightarrow> x \<noteq> CHR ''&'' \<and> x \<noteq> CHR ''=''"
  by (auto simp: QueryEscape_def dest: escape_byte_chars)

lemma split_on_absent: "c \<notin> set p \<Longrightarrow> split_on c p = [p]"
  by (induction p) auto

lemma split_on_append: "c \<notin> set p \<Longrightarrow> split_on c (p @ c # r) = p # split_on c r"
  by (induction p) auto

lemma split_on_join_amp:
  "ps \<noteq> [] \<Longrightarrow> \<forall>p \<in> set ps. CHR ''&'' \<notin> set p \<Longrightarrow> split_on (CHR ''&'') (join_amp ps) = ps"
proof (induction ps rule: join_amp.induct)
  case 1
  then show ?case by simp
next
  case (2 p)
  then show ?case by (simp add: split_on_absent)
next
  case (3 p q ps)
  then show ?case by (simp add: split_on_append)
qed

lemma cut_eq_pair: "CHR ''='' \<notin> set k \<Longrightarrow> cut_eq (k @ CHR ''='' # v) = (k, v)"
  by (induction k) (auto simp: cut_eq_def)


lemma QueryEscape_amp: "CHR ''&'' \<notin> set (QueryEscape s)" "CHR ''='' \<notin> set (QueryEscape s)"
  using QueryEscape_chars by blast+

lemma wire_snoc:
  "ps \<noteq> [] \<Longrightarrow> wire (ps @ [(k, v)]) = wire ps @ ''&'' @ QueryEscape k @ ''='' @ QueryEscape v"
proof (induction ps rule: induct_list012)
  case 1
  then show ?case by simp
next
  case (2 p)
  then show ?case by (simp add: wire_def split: prod.splits)
next
  case (3 p q ps)
  then show ?case by (simp add: wire_def split: prod.splits)
qed

lemma join_amp_nonempty: "ps \<noteq> [] \<Longrightarrow> hd ps \<noteq> [] \<Longrightarrow> join_amp ps \<noteq> []"
  by (induction ps rule: join_amp.induct) auto

lemma query_pairs_wire:
  "query_pairs (wire ps) = map (\<lambda>(k, v). (QueryEscape k, QueryEscape v)) ps"
proof (cases "ps = []")
  case True
  then show ?thesis by (simp add: wire_def query_pairs_def)
next
  case False
  let ?parts = "map (\<lambda>(k, v). QueryEscape k @ ''='' @ QueryEscape v) ps"
  have ne: "?parts \<noteq> []" using False by simp
  have noamp: "\<forall>p \<in> set ?parts. CHR ''&'' \<notin> set p"
    using QueryEscape_amp by auto
  have "wire ps \<noteq> []"
    unfolding wire_def using False
    by (intro join_amp_nonempty) (auto simp: hd_map split: prod.splits)
  then have "query_pairs (wire ps) = map cut_eq ?parts"
    using split_on_join_amp [OF ne noamp] by (simp add: query_pairs_def wire_def)
  also have "\<dots> = map (\<lambda>(k, v). (QueryEscape k, QueryEscape v)) ps"
    by (simp add: cut_eq_pair QueryEscape_amp split: prod.splits)
  finally show ?thesis .
qed

lemma Encode_wire:
  "Encode v = wire (concat (map (\<lambda>(k, vs). map (Pair k) vs) (sort_key fst v)))"
  by (simp add: Encode_def wire_def map_concat comp_def case_prod_unfold)

lemma sorted_query_values:
  "businessKey g = Some bk \<Longrightarrow>
     concat (map (\<lambda>(k, vs). map (Pair k) vs) (sort_key fst (query_values g lat lng)))
       = canonical_params g bk lat lng"
  by (simp add: query_values_def canonical_params_def Let_def)

lemma sorted_query_values_signed:
  "businessKey g = Some bk \<Longrightarrow>
     concat (map (\<lambda>(k, vs). map (Pair k) vs)
               (sort_key fst (Add (query_values g lat lng) ''signature'' sig)))
       = canonical_params g bk lat lng @ [(''signature'', sig)]"
  by (simp add: query_values_def canonical_params_def Let_def)

lemma QueryEscape_signature: "QueryEscape ''signature'' = ''signature''"
  by (simp add: QueryEscape_def escape_byte_def unreserved_def)

lemma canonical_params_nonempty: "canonical_params g bk lat lng \<noteq> []"
  by (simp add: canonical_params_def)

lemma Encode_query_values:
  "businessKey g = Some bk \<Longrightarrow> Encode (query_values g lat lng) = wire (canonical_params g bk lat lng)"
  by (simp add: Encode_wire sorted_query_values)

lemma Encode_signed:
  "businessKey g = Some bk \<Longrightarrow>
     Encode (Add (query_values g lat lng) ''signature'' sig)
       = wire (canonical_params g bk lat lng @ [(''signature'', sig)])"
  by (simp add: Encode_wire sorted_query_values_signed)

lemma buildURL_Returns:
  assumes "buildURL L g lat lng = Returns (Inr u)"
  shows "\<exists>bk ur sig. businessKey g = Some bk \<and> url_Parse L (baseURL g) = Inr ur
           \<and> getSignature g (Path ur @ ''?'' @ Encode (query_values g lat lng)) = Returns (Inr sig)
           \<and> u = ur\<lparr>RawQuery := wire (canonical_params g bk lat lng @ [(''signature'', sig)])\<rparr>"
proof (cases "businessKey g")
  case None
  then show ?thesis
    using assms by (simp add: buildURL_def getSignature_def Let_def split: sum.splits)
next
  case (Some bk)
  then show ?thesis
    using assms
    by (auto simp: buildURL_def Let_def Encode_signed split: sum.splits outcome.splits)
qed

lemma buildURL_built:
  assumes "businessKey g = Some bk" and "url_Parse L (baseURL g) = Inr ur"
    and "sign_spec (SigningKey bk) (Path ur @ ''?'' @ wire (canonical_params g bk lat lng)) = Inr sig"
  shows "buildURL L g lat lng
           = Returns (Inr (ur\<lparr>RawQuery := wire (canonical_params g bk lat lng @ [(''signature'', sig)])\<rparr>))"
  using assms
  by (simp add: buildURL_def Let_def Encode_signed Encode_query_values getSignature_sign_spec)

lemma buildURL_outcomes:
  "buildURL L g lat lng =
     (case url_Parse L (baseURL g) of
        Inl err \<Rightarrow> Returns (Inl err)
      | Inr ur \<Rightarrow>
          (case businessKey g of
             None \<Rightarrow> Panics
           | Some bk \<Rightarrow>
               (case sign_spec (SigningKey bk)
                       (Path ur @ ''?'' @ wire (canonical_params g bk lat lng)) of
                  Inl err \<Rightarrow> Returns (Inl err)
                | Inr sig \<Rightarrow>
                    Returns (Inr (ur\<lparr>RawQuery :=
                      wire (canonical_params g bk lat lng @ [(''signature'', sig)])\<rparr>)))))"
proof (cases "businessKey g")
  case None
  then show ?thesis
    by (simp add: buildURL_def getSignature_def Let_def split: sum.splits)
next
  case (Some bk)
  then show ?thesis
    by (simp add: buildURL_def Let_def Encode_signed Encode_query_values getSignature_sign_spec
          split: sum.splits)
qed

lemma QueryEscape_keys:
  "QueryEscape ''channel'' = ''channel''" "QueryEscape ''client'' = ''client''"
  "QueryEscape ''language'' = ''language''" "QueryEscape ''latlng'' = ''latlng''"
  "QueryEscape ''sensor'' = ''sensor''" "QueryEscape ''false'' = ''false''"
  by (simp_all add: QueryEscape_def escape_byte_def unreserved_def)











lemma unhex_table: "\<forall>k \<in> set [0..<16]. unhex (''0123456789ABCDEF'' ! k) = Some k"
  by code_simp

lemma unhex_upperhex: "unhex (upperhex d) = Some (d mod 16)"
  using unhex_table by (simp add: upperhex_def)

lemma char_of_hex: "char_of (16 * (of_char c div 16 mod 16) + of_char c mod 16 :: nat) = c"
proof -
  have "(of_char c :: nat) < 256" by simp
  then have "(of_char c :: nat) div 16 < 16" by arith
  then have "(of_char c :: nat) div 16 mod 16 = of_char c div 16" by simp
  then show ?thesis by simp
qed

lemma QueryUnescape_escape_byte:
  "QueryUnescape (escape_byte c @ r)
     = (case QueryUnescape r of Inl err \<Rightarrow> Inl err | Inr s \<Rightarrow> Inr (c # s))"
proof (cases "unreserved c")
  case True
  then have "c \<noteq> CHR ''%''" "c \<noteq> CHR ''+''" using not_unreserved_amp by auto
  then show ?thesis using True by (simp add: escape_byte_def)
next
  case False
  then show ?thesis
    by (auto simp: escape_byte_def unhex_upperhex char_of_hex split: sum.splits)
qed

lemma QueryUnescape_QueryEscape: "QueryUnescape (QueryEscape s) = Inr s"
proof (induction s)
  case Nil
  then show ?case by (simp add: QueryEscape_def)
next
  case (Cons c s)
  then show ?case
    using QueryUnescape_escape_byte [of c "QueryEscape s"] by (simp add: QueryEscape_def)
qed

section \<open>The value of a printed coordinate\<close>

text \<open>
  What \<^verbatim>\<open>%.8f\<close> prints reads back as the number it stands for: the integer part and the
  8 decimals are the digits of \<open>scaled8 m e\<close>, which is \<open>m * 2\<^sup>e * 10\<^sup>8\<close> exactly for
  \<open>e \<ge> 0\<close> and the nearest integer to it otherwise.
\<close>

lemma digit_value_table: "\<forall>k \<in> set [0..<10]. digit_value (''0123456789'' ! k) = k"
  by code_simp

lemma digit_value_digit: "digit_value (digit d) = d mod 10"
  using digit_value_table by (simp add: digit_def)

lemma read_digits_snoc: "read_digits (s @ [c]) = 10 * read_digits s + digit_value c"
  by (simp add: read_digits_def)

lemma read_digits_decimal: "read_digits (decimal n) = n"
proof (induction n rule: decimal.induct)
  case (1 n)
  show ?case
  proof (cases "n < 10")
    case True
    then show ?thesis
      by (subst decimal.simps) (simp add: read_digits_def digit_value_digit)
  next
    case False
    then have "read_digits (decimal (n div 10)) = n div 10" using 1 by simp
    then show ?thesis
      using False by (subst decimal.simps) (simp add: read_digits_snoc digit_value_digit)
  qed
qed

lemma read_digits_append:
  "read_digits (s @ t) = read_digits s * 10 ^ length t + read_digits t"
proof (induction t rule: rev_induct)
  case Nil
  then show ?case by (simp add: read_digits_def)
next
  case (snoc c t)
  have "read_digits (s @ t @ [c]) = 10 * read_digits (s @ t) + digit_value c"
    using read_digits_snoc [of "s @ t" c] by simp
  then show ?case
    by (simp add: snoc read_digits_snoc algebra_simps)
qed

lemma read_digits_single: "read_digits [c] = digit_value c"
  by (simp add: read_digits_def)

lemma read_digits_places:
  "read_digits (map (\<lambda>i. digit (n div 10 ^ i)) (rev [0..<k])) = n mod 10 ^ k"
proof (induction k)
  case 0
  then show ?case by (simp add: read_digits_def)
next
  case (Suc k)
  have "read_digits (map (\<lambda>i. digit (n div 10 ^ i)) (rev [0..<Suc k]))
          = read_digits ([digit (n div 10 ^ k)] @ map (\<lambda>i. digit (n div 10 ^ i)) (rev [0..<k]))"
    by simp
  also have "\<dots> = (n div 10 ^ k mod 10) * 10 ^ k + n mod 10 ^ k"
    unfolding read_digits_append
    by (simp add: Suc read_digits_single digit_value_digit)
  also have "\<dots> = n mod (10 ^ k * 10)"
    unfolding mod_mult2_eq by simp
  also have "\<dots> = n mod 10 ^ Suc k"
    by (simp add: mult.commute)
  finally show ?case .
qed

lemma read_digits_fraction8: "read_digits (fraction8 n) = n mod 100000000"
proof -
  have "rev [0..<8] = [7, 6, 5, 4, 3, 2, 1, 0::nat]"
    by code_simp
  then show ?thesis
    using read_digits_places [of n 8] by (simp add: fraction8_def)
qed

lemma round_half_even_nearest:
  assumes "0 < d"
  shows "2 * \<bar>int (round_half_even q d) * int d - int q\<bar> \<le> int d"
proof -
  have q: "int q = int (q div d) * int d + int (q mod d)"
    by (metis div_mult_mod_eq of_nat_add of_nat_mult)
  have r: "int (q mod d) < int d" using assms by simp
  show ?thesis
  proof (cases "2 * (q mod d) > d \<or> (2 * (q mod d) = d \<and> odd (q div d))")
    case True
    then have "round_half_even q d = q div d + 1" by (simp add: round_half_even_def)
    moreover from True have "int d \<le> 2 * int (q mod d)" by auto
    ultimately show ?thesis using q r by (simp add: algebra_simps)
  next
    case False
    then have "round_half_even q d = q div d" by (simp add: round_half_even_def)
    moreover from False have "2 * int (q mod d) \<le> int d" by auto
    ultimately show ?thesis using q by (simp add: algebra_simps)
  qed
qed

lemma scaled8_nearest:
  "e < 0 \<Longrightarrow> 2 * \<bar>int (scaled8 m e) * 2 ^ nat (- e) - int m * 100000000\<bar> \<le> 2 ^ nat (- e)"
  "0 \<le> e \<Longrightarrow> scaled8 m e = m * 2 ^ nat e * 100000000"
  using round_half_even_nearest [of "2 ^ nat (- e)" "m * 100000000"]
  by (simp_all add: scaled8_def)

lemma Sprintf_8f_reads_back:
  "read_digits (decimal (scaled8 m e div 100000000)) * 100000000
     + read_digits (fraction8 (scaled8 m e)) = scaled8 m e"
  by (simp add: read_digits_decimal read_digits_fraction8)

section \<open>The URL builder on the values of the tests\<close>

lemma Sprintf_45_32: "Sprintf_8f lat_45_32 = ''45.32000000''"
  by (simp add: lat_45_32_def scaled8_def round_half_even_def fraction8_def digit_def decimal.simps)

lemma Sprintf_12_67: "Sprintf_8f lng_12_67 = ''12.67000000''"
  by (simp add: lng_12_67_def scaled8_def round_half_even_def fraction8_def digit_def decimal.simps)

lemma test_canonical:
  "wire (canonical_params (test_geocoder c) test_key lat_45_32 lng_12_67)
     = ''channel=grg-local&client=my_test_client&language=en&latlng=45.32000000%2C12.67000000&sensor=false''"
  by (simp add: wire_def canonical_params_def test_geocoder_def test_key_def Sprintf_45_32
        Sprintf_12_67 QueryEscape_def escape_byte_def unreserved_def upperhex_def)

lemma test_signed:
  "wire (canonical_params (test_geocoder c) test_key lat_45_32 lng_12_67
          @ [(''signature'', ''bdwh-bmlibC2w2N_A2tgt7pSuAE='')])
     = built_query"
  unfolding wire_snoc [OF canonical_params_nonempty] test_canonical built_query_def
  by (simp add: QueryEscape_def escape_byte_def unreserved_def upperhex_def)

lemma test_buildURL:
  "buildURL test_lib (test_geocoder c) lat_45_32 lng_12_67
     = Returns (Inr (test_url\<lparr>RawQuery := built_query\<rparr>))"
proof -
  have bk: "businessKey (test_geocoder c) = Some test_key"
    by (simp add: test_geocoder_def)
  have ur: "url_Parse test_lib (baseURL (test_geocoder c)) = Inr test_url"
    by (simp add: test_lib_def test_geocoder_def)
  have sig: "sign_spec (SigningKey test_key)
               (Path test_url @ ''?'' @ wire (canonical_params (test_geocoder c) test_key lat_45_32 lng_12_67))
             = Inr ''bdwh-bmlibC2w2N_A2tgt7pSuAE=''"
    unfolding test_canonical using built_sign_spec by (simp add: test_key_def test_url_def)
  show ?thesis
    using buildURL_built [OF bk ur sig] by (simp only: test_signed)
qed

section \<open>Properties of the URL builder\<close>

lemma escaped_lookup:
  "map_of (map (\<lambda>(k, v). (QueryEscape k, QueryEscape v))
             (canonical_params g bk lat lng @ [(''signature'', sig)])) ''client''
     = Some (QueryEscape (ClientID bk))"
  "map_of (map (\<lambda>(k, v). (QueryEscape k, QueryEscape v))
             (canonical_params g bk lat lng @ [(''signature'', sig)])) ''channel''
     = (if Channel bk = [] then None else Some (QueryEscape (Channel bk)))"
  "map_of (map (\<lambda>(k, v). (QueryEscape k, QueryEscape v))
             (canonical_params g bk lat lng @ [(''signature'', sig)])) ''latlng''
     = Some (QueryEscape (Sprintf_8f lat @ '','' @ Sprintf_8f lng))"
  by (simp_all add: canonical_params_def QueryEscape_keys QueryEscape_signature)

lemma sign_spec_test_key: "\<exists>sig. sign_spec ''bXlfdGVzdF9rZXk='' t = Inr sig"
proof -
  have "map to_std_alphabet ''bXlfdGVzdF9rZXk='' = ''bXlfdGVzdF9rZXk=''"
    by (simp add: to_std_alphabet_def)
  then show ?thesis by (simp add: sign_spec_def fixture_key)
qed

lemma raw_query_built:
  assumes "businessKey g = Some bk" and "url_Parse L (baseURL g) = Inr ur"
    and "SigningKey bk = ''bXlfdGVzdF9rZXk=''"
  shows "\<exists>sig. query_pairs (raw_query_of (buildURL L g lat lng))
           = map (\<lambda>(k, v). (QueryEscape k, QueryEscape v))
               (canonical_params g bk lat lng @ [(''signature'', sig)])"
proof -
  from sign_spec_test_key obtain sig where
    "sign_spec (SigningKey bk) (Path ur @ ''?'' @ wire (canonical_params g bk lat lng)) = Inr sig"
    unfolding assms(3) by blast
  from buildURL_built [OF assms(1,2) this] show ?thesis
    by (auto simp: raw_query_of_def query_pairs_wire)
qed

text \<open>
  C2. Round trip between the builder and the signer: whenever \<^verbatim>\<open>buildURL\<close> returns a URL,
  for any coordinates, its raw query is the canonical query (the serialisation of the
  parameters without the signature) followed by the signature parameter, which is the
  last parameter transmitted; its value is the escaped result of \<^verbatim>\<open>getSignature\<close> on the
  URL's path, a question mark and the canonical query, and unescaping it gives that
  result back.
\<close>

theorem buildURL_signature_roundtrip:
  assumes "buildURL L g lat lng = Returns (Inr u)"
  shows "\<exists>sig. getSignature g (Path u @ ''?'' @ Encode (query_values g lat lng)) = Returns (Inr sig)
           \<and> RawQuery u = Encode (query_values g lat lng) @ ''&signature='' @ QueryEscape sig
           \<and> last (query_pairs (RawQuery u)) = (''signature'', QueryEscape sig)
           \<and> QueryUnescape (QueryEscape sig) = Inr sig"
proof -
  from buildURL_Returns [OF assms] obtain bk ur sig where
    bk: "businessKey g = Some bk"
    and sig: "getSignature g (Path ur @ ''?'' @ Encode (query_values g lat lng)) = Returns (Inr sig)"
    and u: "u = ur\<lparr>RawQuery := wire (canonical_params g bk lat lng @ [(''signature'', sig)])\<rparr>"
    by blast
  have 1: "getSignature g (Path u @ ''?'' @ Encode (query_values g lat lng)) = Returns (Inr sig)"
    using sig by (simp add: u)
  have 2: "RawQuery u = Encode (query_values g lat lng) @ ''&signature='' @ QueryEscape sig"
    by (simp add: u wire_snoc [OF canonical_params_nonempty] Encode_query_values [OF bk]
          QueryEscape_signature)
  have 3: "last (query_pairs (RawQuery u)) = (''signature'', QueryEscape sig)"
    by (simp add: u query_pairs_wire QueryEscape_signature)
  show ?thesis
    using 1 2 3 QueryUnescape_QueryEscape by blast
qed

theorem buildURL_signature_roundtrip_witness:
  "buildURL test_lib (test_geocoder failing_transport) lat_45_32 lng_12_67
     = Returns (Inr (test_url\<lparr>RawQuery := built_query\<rparr>))
   \<and> (\<exists>sig. getSignature (test_geocoder failing_transport)
               (Path (test_url\<lparr>RawQuery := built_query\<rparr>) @ ''?''
                  @ Encode (query_values (test_geocoder failing_transport) lat_45_32 lng_12_67))
              = Returns (Inr sig)
            \<and> RawQuery (test_url\<lparr>RawQuery := built_query\<rparr>)
                = Encode (query_values (test_geocoder failing_transport) lat_45_32 lng_12_67)
                    @ ''&signature='' @ QueryEscape sig
            \<and> last (query_pairs (RawQuery (test_url\<lparr>RawQuery := built_query\<rparr>)))
                = (''signature'', QueryEscape sig)
            \<and> QueryUnescape (QueryEscape sig) = Inr sig)"
  using buildURL_signature_roundtrip [OF test_buildURL [of failing_transport]] test_buildURL
  by blast




text \<open>
  C4. Whenever \<^verbatim>\<open>buildURL\<close> returns a URL, credentials are present and the query
  contains the \<^verbatim>\<open>client\<close> parameter, whether or not a channel is configured; it contains
  the \<^verbatim>\<open>channel\<close> parameter exactly when the configured channel is not empty.
\<close>

theorem buildURL_client_channel:
  assumes "buildURL L g lat lng = Returns (Inr u)"
  shows "\<exists>bk. businessKey g = Some bk
           \<and> map_of (query_pairs (RawQuery u)) ''client'' = Some (QueryEscape (ClientID bk))
           \<and> map_of (query_pairs (RawQuery u)) ''channel''
               = (if Channel bk = [] then None else Some (QueryEscape (Channel bk)))"
proof -
  from buildURL_Returns [OF assms] obtain bk ur sig where
    bk: "businessKey g = Some bk"
    and u: "u = ur\<lparr>RawQuery := wire (canonical_params g bk lat lng @ [(''signature'', sig)])\<rparr>"
    by blast
  have "query_pairs (RawQuery u)
          = map (\<lambda>(k, v). (QueryEscape k, QueryEscape v))
              (canonical_params g bk lat lng @ [(''signature'', sig)])"
    by (simp add: u query_pairs_wire)
  then show ?thesis
    using bk escaped_lookup(1,2) [of g bk lat lng sig] by simp
qed

theorem buildURL_client_channel_witness:
  "buildURL test_lib (test_geocoder failing_transport) lat_45_32 lng_12_67
     = Returns (Inr (test_url\<lparr>RawQuery := built_query\<rparr>))
   \<and> (\<exists>bk. businessKey (test_geocoder failing_transport) = Some bk
           \<and> map_of (query_pairs (RawQuery (test_url\<lparr>RawQuery := built_query\<rparr>))) ''client''
               = Some (QueryEscape (ClientID bk))
           \<and> map_of (query_pairs (RawQuery (test_url\<lparr>RawQuery := built_query\<rparr>))) ''channel''
               = (if Channel bk = [] then None else Some (QueryEscape (Channel bk))))"
  using buildURL_client_channel [OF test_buildURL [of failing_transport]] test_buildURL
  by blast

text \<open>
  Credentials without a channel: the query has the \<^verbatim>\<open>client\<close> parameter.
\<close>

theorem client_without_channel_counterexample:
  "Channel (test_key\<lparr>Channel := []\<rparr>) = []
   \<and> businessKey no_channel_geocoder = Some (test_key\<lparr>Channel := []\<rparr>)
   \<and> map_of (query_pairs (raw_query_of (buildURL test_lib no_channel_geocoder lat_45_32 lng_12_67)))
        ''client'' = Some ''my_test_client''"
proof -
  have bk: "businessKey no_channel_geocoder = Some (test_key\<lparr>Channel := []\<rparr>)"
    by (simp add: no_channel_geocoder_def)
  have ur: "url_Parse test_lib (baseURL no_channel_geocoder) = Inr test_url"
    by (simp add: test_lib_def test_geocoder_def no_channel_geocoder_def)
  have k: "SigningKey (test_key\<lparr>Channel := []\<rparr>) = ''bXlfdGVzdF9rZXk=''"
    by (simp add: test_key_def)
  have e: "QueryEscape (ClientID (test_key\<lparr>Channel := []\<rparr>)) = ''my_test_client''"
    by (simp add: test_key_def QueryEscape_def escape_byte_def unreserved_def)
  from raw_query_built [OF bk ur k, of lat_45_32 lng_12_67] obtain sig where
    q: "query_pairs (raw_query_of (buildURL test_lib no_channel_geocoder lat_45_32 lng_12_67))
          = map (\<lambda>(k, v). (QueryEscape k, QueryEscape v))
              (canonical_params no_channel_geocoder (test_key\<lparr>Channel := []\<rparr>) lat_45_32 lng_12_67
                 @ [(''signature'', sig)])"
    by blast
  have "map_of (query_pairs (raw_query_of (buildURL test_lib no_channel_geocoder lat_45_32 lng_12_67)))
        ''client'' = Some (QueryEscape (ClientID (test_key\<lparr>Channel := []\<rparr>)))"
    unfolding q by (rule escaped_lookup(1))
  then have "map_of (query_pairs (raw_query_of (buildURL test_lib no_channel_geocoder lat_45_32 lng_12_67)))
        ''client'' = Some ''my_test_client''"
    by (simp only: e)
  then show ?thesis
    using bk by simp
qed

section \<open>Properties of the client\<close>

text \<open>
  C5. \<^verbatim>\<open>NewGeocoder\<close> returns a validation error exactly when the credentials are nil, the
  endpoint is empty, the transport is nil or the rate is not positive; for all other
  arguments it returns a client and no error; it never panics.
\<close>

theorem NewGeocoder_validation:
  "((\<exists>e. NewGeocoder bkey url lang cl n d obs = Returns (Inl e))
      \<longleftrightarrow> (bkey = None \<or> url = [] \<or> cl = None \<or> n \<le> 0))
   \<and> ((\<exists>g. NewGeocoder bkey url lang cl n d obs = Returns (Inr g))
      \<longleftrightarrow> \<not> (bkey = None \<or> url = [] \<or> cl = None \<or> n \<le> 0))
   \<and> NewGeocoder bkey url lang cl n d obs \<noteq> Panics"
  by (simp add: NewGeocoder_def)

text \<open>
  C7. When the transport returns an error, \<^verbatim>\<open>ReverseGeocode\<close> returns that error and no
  response; the request was sent once, the limiter's rate was not written, nothing slept,
  and the client is unchanged.
\<close>

theorem ReverseGeocode_transport_error:
  assumes "limiter g = Some lim" and "wait_err cx = None"
    and "buildURL L g lat lng = Returns (Inr ur)" and "client g = Some c"
    and "c (URL_String L ur) = (resp, Some err)"
  shows "ReverseGeocode L cx g lat lng
           = (Returns (Inl err), [LimiterWait, HttpGet (URL_String L ur)], g)"
  using assms by (simp add: ReverseGeocode_def split: option.splits)

lemma ReverseGeocode_cases:
  assumes "ReverseGeocode L cx g lat lng = (out, evs, g')"
  shows "(\<exists>lim res pre. limiter g = Some lim \<and> out = Returns (Inr res) \<and> Status res = GRS_OVER_QUERY_LIMIT
            \<and> list_all (\<lambda>e. \<not> is_throttle_event e) pre
            \<and> evs = pre @ [LimiterSetLimit (rate_Limit 0), Sleep (overQuerySleepDuration g),
                            LimiterSetLimit (rate_Limit (rps g)), BodyClose]
            \<and> g' = g\<lparr>limiter := Some (lim\<lparr>limit := rate_Limit (rps g)\<rparr>)\<rparr>)
       \<or> ((\<forall>res. out = Returns (Inr res) \<longrightarrow> Status res \<noteq> GRS_OVER_QUERY_LIMIT)
            \<and> list_all (\<lambda>e. \<not> is_throttle_event e) evs \<and> g' = g)"
  using assms
  by (auto simp: ReverseGeocode_def SetLimit_def Let_def
        split: option.splits sum.splits outcome.splits prod.splits if_splits)

lemma filter_no_throttle:
  "list_all (\<lambda>e. \<not> is_throttle_event e) pre \<Longrightarrow> filter is_throttle_event pre = []"
  by (induction pre) auto

lemma ReverseGeocode_decoded:
  assumes "limiter g = Some lim" and "wait_err cx = None"
    and "buildURL L g lat lng = Returns (Inr ur)" and "client g = Some c"
    and "c (URL_String L ur) = (Some resp, None)"
    and "json_Decode L (Body resp) = Inr (Some res)"
  shows "fst (ReverseGeocode L cx g lat lng) = Returns (Inr res)"
  using assms by (simp add: ReverseGeocode_def Let_def)

text \<open>
  C6. A call performs the cool-down (the rate set to 0, a sleep of the configured
  duration, the rate set back to the configured requests per second, in this order)
  if and only if it returns a response whose status is \<^verbatim>\<open>OVER_QUERY_LIMIT\<close>; otherwise it
  neither writes the rate nor sleeps. A response that was decoded is the one returned,
  with no error, also when its status is \<^verbatim>\<open>OVER_QUERY_LIMIT\<close>.
\<close>

theorem ReverseGeocode_cooldown:
  assumes "ReverseGeocode L cx g lat lng = (out, evs, g')"
  shows "((filter is_throttle_event evs
             = [LimiterSetLimit (rate_Limit 0), Sleep (overQuerySleepDuration g),
                LimiterSetLimit (rate_Limit (rps g))]
           \<and> (\<exists>res. out = Returns (Inr res) \<and> Status res = GRS_OVER_QUERY_LIMIT))
          \<or> (filter is_throttle_event evs = []
              \<and> (\<forall>res. out = Returns (Inr res) \<longrightarrow> Status res \<noteq> GRS_OVER_QUERY_LIMIT)))
       \<and> (\<forall>lim ur c resp res.
             limiter g = Some lim \<and> wait_err cx = None \<and> buildURL L g lat lng = Returns (Inr ur)
               \<and> client g = Some c \<and> c (URL_String L ur) = (Some resp, None)
               \<and> json_Decode L (Body resp) = Inr (Some res)
             \<longrightarrow> out = Returns (Inr res))"
proof
  from ReverseGeocode_cases [OF assms]
  show "(filter is_throttle_event evs
             = [LimiterSetLimit (rate_Limit 0), Sleep (overQuerySleepDuration g),
                LimiterSetLimit (rate_Limit (rps g))]
           \<and> (\<exists>res. out = Returns (Inr res) \<and> Status res = GRS_OVER_QUERY_LIMIT))
          \<or> (filter is_throttle_event evs = []
              \<and> (\<forall>res. out = Returns (Inr res) \<longrightarrow> Status res \<noteq> GRS_OVER_QUERY_LIMIT))"
    by (auto simp: filter_no_throttle)
next
  show "\<forall>lim ur c resp res.
             limiter g = Some lim \<and> wait_err cx = None \<and> buildURL L g lat lng = Returns (Inr ur)
               \<and> client g = Some c \<and> c (URL_String L ur) = (Some resp, None)
               \<and> json_Decode L (Body resp) = Inr (Some res)
             \<longrightarrow> out = Returns (Inr res)"
    using assms ReverseGeocode_decoded [of g _ cx L lat lng] by fastforce
qed

text \<open>
  C10. When the transport answers with the body \<^verbatim>\<open>null\<close>, which the JSON decoder accepts
  without an error and for which it leaves the response pointer nil, \<^verbatim>\<open>ReverseGeocode\<close>
  dereferences that pointer and panics: it returns neither an error nor a response.
\<close>

theorem ReverseGeocode_nil_response:
  assumes "limiter g = Some lim" and "wait_err cx = None"
    and "buildURL L g lat lng = Returns (Inr ur)" and "client g = Some c"
    and "c (URL_String L ur) = (Some resp, None)" and "Body resp = ''null''"
    and "json_Decode L ''null'' = Inr None"
  shows "fst (ReverseGeocode L cx g lat lng) = Panics"
  using assms by (simp add: ReverseGeocode_def Let_def)

lemma rate_Limit_0: "rate_Limit 0 = Finite False 0 0"
  by (simp add: rate_Limit_def round_half_even_def bit_length.simps [of 0])






section \<open>The client on the values of the tests\<close>

theorem NewGeocoder_validation_witness:
  "(\<exists>g. NewGeocoder (Some test_key) test_endpoint ''en'' (Some failing_transport) 5 100000000 None
          = Returns (Inr g))
   \<and> (\<exists>e. NewGeocoder (Some test_key) test_endpoint ''en'' (Some failing_transport) 0 100000000 None
          = Returns (Inl e))
   \<and> (\<exists>e. NewGeocoder None test_endpoint ''en'' (Some failing_transport) 5 100000000 None
          = Returns (Inl e))"
  using NewGeocoder_validation [of "Some test_key" test_endpoint "''en''" "Some failing_transport" 5
          100000000 None]
    NewGeocoder_validation [of "Some test_key" test_endpoint "''en''" "Some failing_transport" 0
          100000000 None]
    NewGeocoder_validation [of None test_endpoint "''en''" "Some failing_transport" 5
          100000000 None]
  by (simp add: test_endpoint_def)

lemma test_geocoder_fields:
  "limiter (test_geocoder c) = Some (NewLimiter (rate_Limit 5) 1)"
  "client (test_geocoder c) = Some c"
  "observer (test_geocoder c) = None"
  "rps (test_geocoder c) = 5"
  "overQuerySleepDuration (test_geocoder c) = 100000000"
  by (simp_all add: test_geocoder_def)


theorem ReverseGeocode_transport_error_witness:
  "limiter (test_geocoder failing_transport) = Some (NewLimiter (rate_Limit 5) 1)
   \<and> wait_err test_call = None
   \<and> buildURL test_lib (test_geocoder failing_transport) lat_45_32 lng_12_67
       = Returns (Inr (test_url\<lparr>RawQuery := built_query\<rparr>))
   \<and> client (test_geocoder failing_transport) = Some failing_transport
   \<and> failing_transport (URL_String test_lib (test_url\<lparr>RawQuery := built_query\<rparr>))
       = (Some \<lparr>Body = []\<rparr>, Some (errors_New ''failed''))
   \<and> ReverseGeocode test_lib test_call (test_geocoder failing_transport) lat_45_32 lng_12_67
       = (Returns (Inl (errors_New ''failed'')),
          [LimiterWait, HttpGet (URL_String test_lib (test_url\<lparr>RawQuery := built_query\<rparr>))],
          test_geocoder failing_transport)"
proof -
  have 1: "limiter (test_geocoder failing_transport) = Some (NewLimiter (rate_Limit 5) 1)"
    by (rule test_geocoder_fields)
  have 2: "wait_err test_call = None" by (simp add: test_call_def)
  have 3: "buildURL test_lib (test_geocoder failing_transport) lat_45_32 lng_12_67
       = Returns (Inr (test_url\<lparr>RawQuery := built_query\<rparr>))"
    by (rule test_buildURL)
  have 4: "client (test_geocoder failing_transport) = Some failing_transport"
    by (rule test_geocoder_fields)
  have 5: "failing_transport (URL_String test_lib (test_url\<lparr>RawQuery := built_query\<rparr>))
       = (Some \<lparr>Body = []\<rparr>, Some (errors_New ''failed''))"
    by (simp add: failing_transport_def)
  show ?thesis
    using ReverseGeocode_transport_error [OF 1 2 3 4 5] 1 2 3 4 5 by blast
qed

lemma test_decode_over_limit:
  "json_Decode test_lib over_limit_body = Inr (Some \<lparr>Results = [], Status = GRS_OVER_QUERY_LIMIT\<rparr>)"
  by (simp add: test_lib_def over_limit_body_def)

lemma test_restored:
  "(test_geocoder c)\<lparr>limiter := Some (SetLimit (SetLimit (NewLimiter (rate_Limit 5) 1) (rate_Limit 0))
                                        (rate_Limit 5))\<rparr>
     = test_geocoder c"
  by (simp add: test_geocoder_def SetLimit_def NewLimiter_def)

lemma test_over_limit:
  "ReverseGeocode test_lib test_call (test_geocoder over_limit_transport) lat_45_32 lng_12_67
     = (Returns (Inr \<lparr>Results = [], Status = GRS_OVER_QUERY_LIMIT\<rparr>),
        [LimiterWait, HttpGet (URL_String test_lib (test_url\<lparr>RawQuery := built_query\<rparr>)),
         LimiterSetLimit (rate_Limit 0), Sleep 100000000, LimiterSetLimit (rate_Limit 5),
         BodyClose],
        test_geocoder over_limit_transport)"
  by (simp add: ReverseGeocode_def test_buildURL test_geocoder_fields test_call_def
        over_limit_transport_def test_decode_over_limit test_restored)

theorem ReverseGeocode_cooldown_witness:
  "ReverseGeocode test_lib test_call (test_geocoder over_limit_transport) lat_45_32 lng_12_67
     = (Returns (Inr \<lparr>Results = [], Status = GRS_OVER_QUERY_LIMIT\<rparr>),
        [LimiterWait, HttpGet (URL_String test_lib (test_url\<lparr>RawQuery := built_query\<rparr>)),
         LimiterSetLimit (rate_Limit 0), Sleep 100000000, LimiterSetLimit (rate_Limit 5),
         BodyClose],
        test_geocoder over_limit_transport)
   \<and> filter is_throttle_event
        [LimiterWait, HttpGet (URL_String test_lib (test_url\<lparr>RawQuery := built_query\<rparr>)),
         LimiterSetLimit (rate_Limit 0), Sleep 100000000, LimiterSetLimit (rate_Limit 5),
         BodyClose]
       = [LimiterSetLimit (rate_Limit 0),
          Sleep (overQuerySleepDuration (test_geocoder over_limit_transport)),
          LimiterSetLimit (rate_Limit (rps (test_geocoder over_limit_transport)))]"
  using ReverseGeocode_cooldown [OF test_over_limit] test_over_limit
  by (simp add: test_geocoder_fields)

theorem ReverseGeocode_nil_response_witness:
  "limiter (test_geocoder null_transport) = Some (NewLimiter (rate_Limit 5) 1)
   \<and> wait_err test_call = None
   \<and> buildURL test_lib (test_geocoder null_transport) lat_45_32 lng_12_67
       = Returns (Inr (test_url\<lparr>RawQuery := built_query\<rparr>))
   \<and> client (test_geocoder null_transport) = Some null_transport
   \<and> null_transport (URL_String test_lib (test_url\<lparr>RawQuery := built_query\<rparr>))
       = (Some \<lparr>Body = ''null''\<rparr>, None)
   \<and> Body \<lparr>Body = ''null''\<rparr> = ''null''
   \<and> json_Decode test_lib ''null'' = Inr None
   \<and> fst (ReverseGeocode test_lib test_call (test_geocoder null_transport) lat_45_32 lng_12_67)
       = Panics"
proof -
  have 1: "limiter (test_geocoder null_transport) = Some (NewLimiter (rate_Limit 5) 1)"
    by (rule test_geocoder_fields)
  have 2: "wait_err test_call = None" by (simp add: test_call_def)
  have 3: "buildURL test_lib (test_geocoder null_transport) lat_45_32 lng_12_67
       = Returns (Inr (test_url\<lparr>RawQuery := built_query\<rparr>))"
    by (rule test_buildURL)
  have 4: "client (test_geocoder null_transport) = Some null_transport"
    by (rule test_geocoder_fields)
  have 5: "null_transport (URL_String test_lib (test_url\<lparr>RawQuery := built_query\<rparr>))
       = (Some \<lparr>Body = ''null''\<rparr>, None)"
    by (simp add: null_transport_def)
  have 6: "Body \<lparr>Body = ''null''\<rparr> = ''null''" by simp
  have 7: "json_Decode test_lib ''null'' = Inr None" by (simp add: test_lib_def)
  show ?thesis
    using ReverseGeocode_nil_response [OF 1 2 3 4 5 6 7] 1 2 3 4 5 6 7 by blast
qed



section \<open>Properties of the earlier variant\<close>

text \<open>
  The constructor of \<^verbatim>\<open>geoc.go\<close> is the later one without an observer. Its
  \<^verbatim>\<open>ReverseGeocode\<close> treats the provider's answer as the later one does: the cool-down
  exactly on \<^verbatim>\<open>OVER_QUERY_LIMIT\<close>, a transport error passed on, a panic on a nil response.
  Its builder writes the parameters in the order of the source, the comma of \<^verbatim>\<open>latlng\<close>
  unescaped.
\<close>

lemma NewGeocoder_geoc_eq:
  "NewGeocoder_geoc bkey url lang cl n d = NewGeocoder bkey url lang cl n d None"
  by (simp add: NewGeocoder_geoc_def NewGeocoder_def)

lemma ReverseGeocode_geoc_cases:
  assumes "ReverseGeocode_geoc L cx g lat lng = (out, evs, g')"
  shows "(\<exists>lim res pre. limiter g = Some lim \<and> out = Returns (Inr res) \<and> Status res = GRS_OVER_QUERY_LIMIT
            \<and> list_all (\<lambda>e. \<not> is_throttle_event e) pre
            \<and> evs = pre @ [LimiterSetLimit (rate_Limit 0), Sleep (overQuerySleepDuration g),
                            LimiterSetLimit (rate_Limit (rps g)), BodyClose]
            \<and> g' = g\<lparr>limiter := Some (lim\<lparr>limit := rate_Limit (rps g)\<rparr>)\<rparr>)
       \<or> ((\<forall>res. out = Returns (Inr res) \<longrightarrow> Status res \<noteq> GRS_OVER_QUERY_LIMIT)
            \<and> list_all (\<lambda>e. \<not> is_throttle_event e) evs \<and> g' = g)"
  using assms
  by (auto simp: ReverseGeocode_geoc_def SetLimit_def Let_def
        split: option.splits sum.splits outcome.splits prod.splits if_splits)

lemma ReverseGeocode_geoc_transport_error:
  assumes "limiter g = Some lim" and "wait_err cx = None"
    and "url_Parse L (buildURL_geoc g lat lng) = Inr ur"
    and "getSignature g (Path ur @ ''?'' @ RawQuery ur) = Returns (Inr sig)"
    and "client g = Some c"
    and "c (buildURL_geoc g lat lng @ ''&signature='' @ sig) = (resp, Some err)"
  shows "ReverseGeocode_geoc L cx g lat lng
           = (Returns (Inl err),
              [LimiterWait, HttpGet (buildURL_geoc g lat lng @ ''&signature='' @ sig)], g)"
  using assms by (simp add: ReverseGeocode_geoc_def Let_def split: option.splits)

lemma ReverseGeocode_geoc_nil_response:
  assumes "limiter g = Some lim" and "wait_err cx = None"
    and "url_Parse L (buildURL_geoc g lat lng) = Inr ur"
    and "getSignature g (Path ur @ ''?'' @ RawQuery ur) = Returns (Inr sig)"
    and "client g = Some c"
    and "c (buildURL_geoc g lat lng @ ''&signature='' @ sig) = (Some resp, None)"
    and "json_Decode L (Body resp) = Inr None"
  shows "fst (ReverseGeocode_geoc L cx g lat lng) = Panics"
  using assms by (simp add: ReverseGeocode_geoc_def Let_def)

lemma buildURL_geoc_test:
  "buildURL_geoc (test_geocoder c) lat_45_32 lng_12_67
     = ''https://maps.googleapis.com/maps/api/geocode/json?latlng=45.32000000,12.67000000&sensor=false&language=en&client=my_test_client&channel=grg-local''"
  by (simp add: buildURL_geoc_def test_geocoder_def test_key_def test_endpoint_def Sprintf_45_32
        Sprintf_12_67 QueryEscape_def escape_byte_def unreserved_def)

end
